theory Spec2Isabelle
  imports Main
begin

section \<open>Data model (src/lib/types/index.ts)\<close>

text \<open>
  The interfaces \<open>Track\<close>, \<open>Playlist\<close> and \<open>TransferResult\<close>. An optional field
  (\<open>isrc?\<close>, \<open>description?\<close>, \<open>imageUrl?\<close>) is an \<open>option\<close>. The fields \<open>id\<close> and
  \<open>name\<close> occur in two interfaces and clash with HOL constants, so they carry the
  interface as a prefix.
\<close>

record track =
  track_id :: string
  track_name :: string
  artist :: string
  album :: string
  durationMs :: int
  isrc :: "string option"

record playlist =
  playlist_id :: string
  playlist_name :: string
  description :: "string option"
  trackCount :: nat
  tracks :: "track list"
  imageUrl :: "string option"

record TransferResult =
  sourcePlaylist :: playlist
  targetPlaylistId :: string
  matched :: "track list"
  unmatched :: "track list"
  totalTracks :: nat

text \<open>The value \<open>{ added, failed }\<close> that \<open>addTracks\<close> resolves to.\<close>

record add_counts =
  added :: nat
  failed :: nat

text \<open>A thrown JavaScript \<open>Error\<close>, identified by its message.\<close>

datatype error = Error string

section \<open>Progress events (lib/transfer, lines 3 to 8)\<close>

datatype phase = fetching | reading | creating | matching | transferring | complete

record TransferProgress =
  phase :: phase
  current :: nat
  total :: nat
  message :: string

section \<open>JavaScript string helpers\<close>

text \<open>
  \<open>a || b\<close> on an optional string: the empty string and \<open>undefined\<close> are both falsy.
\<close>

definition or_else :: "string option \<Rightarrow> string \<Rightarrow> string" where
  "or_else a b = (case a of None \<Rightarrow> b | Some s \<Rightarrow> if s = [] then b else s)"

text \<open>The decimal rendering of a length inside a template literal.\<close>

definition digit :: "nat \<Rightarrow> char" where
  "digit d = ''0123456789'' ! d"

fun show_nat :: "nat \<Rightarrow> string" where
  "show_nat n = (if n < 10 then [digit n] else show_nat (n div 10) @ [digit (n mod 10)])"

declare show_nat.simps [simp del]

section \<open>The provider contract (interface MusicProvider)\<close>

text \<open>
  A provider method is an asynchronous call on a remote platform. It is modelled as a
  function on the state \<open>'w\<close> of everything outside the engine: it returns the new
  state and either the value the promise resolves to (\<open>Inr\<close>) or the error it rejects
  with (\<open>Inl\<close>). The methods \<open>getAuthUrl\<close> and \<open>handleCallback\<close> are not used by the
  engine.
\<close>

type_synonym ('w, 'a) remote = "'w \<Rightarrow> (error + 'a) \<times> 'w"

record 'w MusicProvider =
  provider_name :: string
  getPlaylists :: "string \<Rightarrow> ('w, playlist list) remote"
  getPlaylistTracks :: "string \<Rightarrow> string \<Rightarrow> ('w, track list) remote"
  createPlaylist :: "string \<Rightarrow> string \<Rightarrow> string option \<Rightarrow> ('w, string) remote"
  addTracks :: "string \<Rightarrow> string \<Rightarrow> track list \<Rightarrow> ('w, add_counts) remote"
  searchTrack :: "string \<Rightarrow> track \<Rightarrow> ('w, track option) remote"

section \<open>The transfer engine (transferPlaylist, lib/transfer)\<close>

text \<open>
  What one invocation leaves behind besides its return value: the outside world, the
  progress events handed to \<open>onProgress\<close> in order, the provider methods invoked in
  order (each with the role of the provider, its arguments and what it came back
  with), and the array that \<open>getPlaylists\<close> returned, whose entries are objects that
  the engine may write to.
\<close>

datatype role = Source | Target

datatype call =
    GetPlaylists role string
  | GetPlaylistTracks role string string
  | CreatePlaylist role string string "string option"
  | SearchTrack role string track
  | AddTracks role string string "track list"

text \<open>What an awaited provider call came back with.\<close>

datatype outcome =
    Rejected error
  | Playlists "playlist list"
  | Tracks "track list"
  | PlaylistId string
  | Found "track option"
  | Counts add_counts

record 'w run =
  world :: 'w
  events :: "TransferProgress list"
  calls :: "(call \<times> outcome) list"
  listing :: "playlist list"

definition start :: "'w \<Rightarrow> 'w run" where
  "start w = \<lparr>world = w, events = [], calls = [], listing = []\<rparr>"

text \<open>
  \<open>onProgress?.(p)\<close>: the parameter is optional, so the flag says whether a sink was
  supplied. The sink has return type \<open>void\<close> and is taken not to throw.
\<close>

definition notify :: "bool \<Rightarrow> TransferProgress \<Rightarrow> 'w run \<Rightarrow> 'w run" where
  "notify onProgress p s = (if onProgress then s\<lparr>events := events s @ [p]\<rparr> else s)"

text \<open>\<open>await provider.method(args)\<close>: the call is recorded and the world advances.\<close>

definition invoke ::
  "call \<Rightarrow> ('a \<Rightarrow> outcome) \<Rightarrow> ('w, 'a) remote \<Rightarrow> 'w run \<Rightarrow> (error + 'a) \<times> 'w run" where
  "invoke c wrap f s =
     (case f (world s) of
        (r, w') \<Rightarrow>
          (r, s\<lparr>world := w',
                calls := calls s @ [(c, case r of Inl e \<Rightarrow> Rejected e | Inr v \<Rightarrow> wrap v)]\<rparr>))"

text \<open>
  \<open>sourcePlaylist.tracks = ...; sourcePlaylist.trackCount = ...\<close> writes to the object
  that \<open>playlists.find\<close> returned, which is the first entry of the array with the
  requested id. Every adapter builds the entries of the array afresh, so no two
  entries are the same object.
\<close>

fun update_first :: "('a \<Rightarrow> bool) \<Rightarrow> ('a \<Rightarrow> 'a) \<Rightarrow> 'a list \<Rightarrow> 'a list" where
  "update_first P f [] = []"
| "update_first P f (x # xs) = (if P x then f x # xs else x # update_first P f xs)"

text \<open>
  The six object literals handed to \<open>onProgress\<close> (lines 19, 25, 31, 44 to 49, 60 and
  63 to 68), as functions of what their template literals and counts read.
\<close>

definition fetching_event :: TransferProgress where
  "fetching_event =
     \<lparr>phase = fetching, current = 0, total = 0, message = ''Fetching playlist details...''\<rparr>"

definition reading_event :: "playlist \<Rightarrow> TransferProgress" where
  "reading_event p =
     \<lparr>phase = reading, current = 0, total = 0,
      message = ''Reading tracks from '' @ [CHR 0x22] @ playlist_name p @ [CHR 0x22] @ ''...''\<rparr>"

definition creating_event :: "playlist \<Rightarrow> string \<Rightarrow> nat \<Rightarrow> TransferProgress" where
  "creating_event p targetName n =
     \<lparr>phase = creating, current = 0, total = n,
      message = ''Creating '' @ [CHR 0x22] @ playlist_name p @ [CHR 0x22] @ '' on ''
                @ targetName @ ''...''\<rparr>"

definition matching_event :: "nat \<Rightarrow> nat \<Rightarrow> track \<Rightarrow> TransferProgress" where
  "matching_event n i track =
     \<lparr>phase = matching, current = i + 1, total = n,
      message = ''Matching: '' @ artist track @ '' - '' @ track_name track\<rparr>"

definition transferring_event :: "nat \<Rightarrow> TransferProgress" where
  "transferring_event k =
     \<lparr>phase = transferring, current = 0, total = k,
      message = ''Adding '' @ show_nat k @ '' tracks...''\<rparr>"

definition complete_event :: "nat \<Rightarrow> nat \<Rightarrow> add_counts \<Rightarrow> nat \<Rightarrow> TransferProgress" where
  "complete_event k n result u =
     \<lparr>phase = complete, current = k, total = n,
      message = ''Done! '' @ show_nat (added result) @ '' added, '' @ show_nat u
                @ '' unmatched.''\<rparr>"

text \<open>
  The loop of step 4 (lines 42 to 57), at index \<open>i\<close> with the tracks from \<open>i\<close> on still
  to visit; \<open>n\<close> is \<open>sourceTracks.length\<close>.
\<close>

fun matchTracks ::
  "'w MusicProvider \<Rightarrow> string \<Rightarrow> bool \<Rightarrow> nat \<Rightarrow> nat \<Rightarrow> track list \<Rightarrow>
   track list \<Rightarrow> track list \<Rightarrow> 'w run \<Rightarrow> (error + track list \<times> track list) \<times> 'w run" where
  "matchTracks targetProvider targetToken onProgress n i [] matched' unmatched' s =
     (Inr (matched', unmatched'), s)"
| "matchTracks targetProvider targetToken onProgress n i (track # rest) matched' unmatched' s =
     (let s1 = notify onProgress (matching_event n i track) s
      in case invoke (SearchTrack Target targetToken track) Found
                (searchTrack targetProvider targetToken track) s1 of
           (Inl e, s2) \<Rightarrow> (Inl e, s2)
         | (Inr None, s2) \<Rightarrow>
             matchTracks targetProvider targetToken onProgress n (i + 1) rest
               matched' (unmatched' @ [track]) s2
         | (Inr (Some found), s2) \<Rightarrow>
             matchTracks targetProvider targetToken onProgress n (i + 1) rest
               (matched' @ [found]) unmatched' s2)"

definition transferPlaylist ::
  "'w MusicProvider \<Rightarrow> 'w MusicProvider \<Rightarrow> string \<Rightarrow> string \<Rightarrow> string \<Rightarrow> bool \<Rightarrow>
   'w run \<Rightarrow> (error + TransferResult) \<times> 'w run" where
  "transferPlaylist sourceProvider targetProvider sourceToken targetToken playlistId onProgress s0 =
   (let s1 = notify onProgress fetching_event s0
    in case invoke (GetPlaylists Source sourceToken) Playlists
              (getPlaylists sourceProvider sourceToken) s1 of
      (Inl e, s2) \<Rightarrow> (Inl e, s2)
    | (Inr playlists, s2) \<Rightarrow>
    (let s3 = s2\<lparr>listing := playlists\<rparr>
     in case find (\<lambda>p. playlist_id p = playlistId) playlists of
       None \<Rightarrow> (Inl (Error (''Playlist '' @ playlistId @ '' not found'')), s3)
     | Some found \<Rightarrow>
     (let s4 = notify onProgress (reading_event found) s3
      in case invoke (GetPlaylistTracks Source sourceToken playlistId) Tracks
                (getPlaylistTracks sourceProvider sourceToken playlistId) s4 of
        (Inl e, s5) \<Rightarrow> (Inl e, s5)
      | (Inr sourceTracks, s5) \<Rightarrow>
      (let fill = (\<lambda>p. p\<lparr>tracks := sourceTracks, trackCount := length sourceTracks\<rparr>);
           sourcePlaylist' = fill found;
           s6 = s5\<lparr>listing := update_first (\<lambda>p. playlist_id p = playlistId) fill (listing s5)\<rparr>;
           s7 = notify onProgress
                  (creating_event sourcePlaylist' (provider_name targetProvider)
                     (length sourceTracks)) s6;
           desc = or_else (description sourcePlaylist')
                    (''Transferred from '' @ provider_name sourceProvider)
       in case invoke (CreatePlaylist Target targetToken (playlist_name sourcePlaylist') (Some desc))
                 PlaylistId
                 (createPlaylist targetProvider targetToken (playlist_name sourcePlaylist') (Some desc))
                 s7 of
         (Inl e, s8) \<Rightarrow> (Inl e, s8)
       | (Inr targetPlaylistId', s8) \<Rightarrow>
       (case matchTracks targetProvider targetToken onProgress (length sourceTracks) 0
               sourceTracks [] [] s8 of
          (Inl e, s9) \<Rightarrow> (Inl e, s9)
        | (Inr (matched', unmatched'), s9) \<Rightarrow>
        (let s10 = notify onProgress (transferring_event (length matched')) s9
         in case invoke (AddTracks Target targetToken targetPlaylistId' matched') Counts
                   (addTracks targetProvider targetToken targetPlaylistId' matched') s10 of
           (Inl e, s11) \<Rightarrow> (Inl e, s11)
         | (Inr result, s11) \<Rightarrow>
         (let s12 = notify onProgress
                      (complete_event (length matched') (length sourceTracks) result
                         (length unmatched')) s11
          in (Inr \<lparr>sourcePlaylist = sourcePlaylist', targetPlaylistId = targetPlaylistId',
                   matched = matched', unmatched = unmatched',
                   totalTracks = length sourceTracks\<rparr>, s12))))))))"

section \<open>The platform adapters (src/lib/providers)\<close>

subsection \<open>The HTTP transport\<close>

text \<open>
  The requests that \<open>searchTrack\<close> and \<open>addTracks\<close> send, by what they ask for; the
  URL, the headers and the encoding of each are the adapter's wire format.
  \<^item> \<open>IsrcSearch token isrc\<close>: the lookup by ISRC (Spotify \<open>search?q=isrc:...\<close>, Apple
    Music \<open>catalog/us/songs?filter[isrc]=...\<close>);
  \<^item> \<open>TextSearch token q\<close>: the free-text search for the query \<open>q\<close>;
  \<^item> \<open>AddItems token playlistId ids\<close>: the POST that adds the items \<open>ids\<close> to a playlist.
\<close>

datatype request =
    IsrcSearch string string
  | TextSearch string string
  | AddItems string string "string list"

text \<open>
  What \<open>await fetch(...)\<close> gives: the promise rejects (\<open>Failed\<close>), or there is a
  response with its \<open>ok\<close> flag and its body. \<open>await response.json()\<close> on the body
  \<^item> rejects (\<open>Malformed\<close>), or
  \<^item> yields \<open>null\<close> (\<open>JsonNull\<close>), on which the first property read (\<open>data.tracks\<close>,
    \<open>data.items\<close>, \<open>data.data\<close>, \<open>data.results\<close>) throws a \<open>TypeError\<close>, or
  \<^item> yields a value with the array of hits at the path the adapter reads (\<open>Items\<close>),
    which is empty when the path is absent (\<open>undefined > 0\<close> is false). A hit is \<open>None\<close>
    when the entry of the array is \<open>null\<close>: reading a property of it throws a
    \<open>TypeError\<close>. The fields of a hit that the adapter dereferences are optional in
    the records below, and the read of an absent one throws a \<open>TypeError\<close> as well.
\<close>

datatype 'i body = Malformed error | JsonNull | Items "'i option list"

datatype 'i response = Failed error | Response bool "'i body"

definition type_error :: error where
  "type_error = Error ''TypeError''"

text \<open>
  The platform has a state \<open>'p\<close> and answers each request from it; the adapter's side
  keeps the requests sent so far.
\<close>

type_synonym ('p, 'i) server = "request \<Rightarrow> 'p \<Rightarrow> 'i response \<times> 'p"

record 'p net =
  sent :: "request list"
  platform :: 'p

definition fetch :: "('p, 'i) server \<Rightarrow> request \<Rightarrow> 'p net \<Rightarrow> 'i response \<times> 'p net" where
  "fetch srv rq n =
     (case srv rq (platform n) of (r, p') \<Rightarrow> (r, \<lparr>sent = sent n @ [rq], platform = p'\<rparr>))"

text \<open>\<open>if (s)\<close> on an optional string.\<close>

definition truthy :: "string option \<Rightarrow> bool" where
  "truthy a = (case a of None \<Rightarrow> False | Some s \<Rightarrow> s \<noteq> [])"

text \<open>\<open>names.join(', ')\<close>.\<close>

fun join_comma :: "string list \<Rightarrow> string" where
  "join_comma [] = []"
| "join_comma [x] = x"
| "join_comma (x # y # ys) = x @ '', '' @ join_comma (y # ys)"

text \<open>
  \<open>s.trim()\<close>. A \<open>char\<close> stands for a code unit below 256; the white space and line
  terminators of ECMAScript in that range are U+0009 to U+000D, U+0020 and U+00A0.
\<close>

definition is_space :: "char \<Rightarrow> bool" where
  "is_space c =
     (c \<in> set [CHR 0x09, CHR 0x0A, CHR 0x0B, CHR 0x0C, CHR 0x0D, CHR 0x20, CHR 0xA0])"

definition trim :: "string \<Rightarrow> string" where
  "trim s = rev (dropWhile is_space (rev (dropWhile is_space s)))"

subsection \<open>Spotify (spotify.ts)\<close>

text \<open>
  A hit of the search. \<open>sp_artists\<close> is \<open>None\<close> when \<open>t.artists.map((a) => a.name)\<close>
  throws (no \<open>artists\<close>, or not an array of objects).
\<close>

record spotify_item =
  sp_id :: string
  sp_name :: string
  sp_artists :: "string list option"
  sp_album :: "string option"
  sp_duration_ms :: int
  sp_isrc :: "string option"

text \<open>The object literal of lines 152 to 159 and 172 to 179, built from \<open>items[0]\<close>.\<close>

definition spotify_track :: "spotify_item option \<Rightarrow> error + track" where
  "spotify_track hit =
     (case hit of
        None \<Rightarrow> Inl type_error
      | Some t \<Rightarrow>
          (case sp_artists t of
             None \<Rightarrow> Inl type_error
           | Some names \<Rightarrow>
               Inr \<lparr>track_id = sp_id t, track_name = sp_name t, artist = join_comma names,
                    album = or_else (sp_album t) [], durationMs = sp_duration_ms t,
                    isrc = sp_isrc t\<rparr>))"

text \<open>
  Lines 145 to 160 and 165 to 182, from the awaited fetch on: the error thrown, the
  track returned, or \<open>None\<close> when control falls out of the \<open>if\<close>. The \<open>ok\<close> flag is
  not read.
\<close>

definition Spotify_read :: "spotify_item response \<Rightarrow> error + track option" where
  "Spotify_read r =
     (case r of
        Failed e \<Rightarrow> Inl e
      | Response ok (Malformed e) \<Rightarrow> Inl e
      | Response ok JsonNull \<Rightarrow> Inl type_error
      | Response ok (Items []) \<Rightarrow> Inr None
      | Response ok (Items (t # ts)) \<Rightarrow>
          (case spotify_track t of Inl e \<Rightarrow> Inl e | Inr found \<Rightarrow> Inr (Some found)))"

text \<open>Lines 163 to 182: the search by name and artist.\<close>

definition Spotify_textSearch ::
  "('p, spotify_item) server \<Rightarrow> string \<Rightarrow> track \<Rightarrow> ('p net, track option) remote" where
  "Spotify_textSearch srv token track n =
     (case fetch srv (TextSearch token (''track:'' @ track_name track @ '' artist:'' @ artist track)) n of
        (r, n1) \<Rightarrow> (Spotify_read r, n1))"

definition Spotify_searchTrack ::
  "('p, spotify_item) server \<Rightarrow> string \<Rightarrow> track \<Rightarrow> ('p net, track option) remote" where
  "Spotify_searchTrack srv token track n =
     (if truthy (isrc track) then
        (case fetch srv (IsrcSearch token (the (isrc track))) n of
           (r, n1) \<Rightarrow>
             (case Spotify_read r of
                Inl e \<Rightarrow> (Inl e, n1)
              | Inr (Some found) \<Rightarrow> (Inr (Some found), n1)
              | Inr None \<Rightarrow> Spotify_textSearch srv token track n1))
      else Spotify_textSearch srv token track n)"

text \<open>
  Lines 111 to 116: \<open>Promise.all\<close> over one search per track. The array it resolves to
  is in the order of \<open>tracks\<close>, and it rejects when a search rejects. The searches are
  taken one after the other, in the order of \<open>tracks\<close>.
\<close>

fun Spotify_resolve ::
  "('p, spotify_item) server \<Rightarrow> string \<Rightarrow> track list \<Rightarrow> ('p net, string option list) remote" where
  "Spotify_resolve srv token [] n = (Inr [], n)"
| "Spotify_resolve srv token (track # rest) n =
     (case Spotify_searchTrack srv token track n of
        (Inl e, n1) \<Rightarrow> (Inl e, n1)
      | (Inr found, n1) \<Rightarrow>
          (case Spotify_resolve srv token rest n1 of
             (Inl e, n2) \<Rightarrow> (Inl e, n2)
           | (Inr uris, n2) \<Rightarrow>
               (Inr (map_option (\<lambda>f. ''spotify:track:'' @ track_id f) found # uris), n2)))"

text \<open>Lines 122 to 137: the loop over the batches of 100, at offset \<open>i\<close>.\<close>

function Spotify_addBatches ::
  "('p, spotify_item) server \<Rightarrow> string \<Rightarrow> string \<Rightarrow> string list \<Rightarrow> nat \<Rightarrow> nat \<Rightarrow> nat \<Rightarrow>
   ('p net, add_counts) remote" where
  "Spotify_addBatches srv token playlistId validUris i added' failed' n =
     (if i < length validUris then
        (let batch = take 100 (drop i validUris)
         in case fetch srv (AddItems token playlistId batch) n of
              (Failed e, n1) \<Rightarrow> (Inl e, n1)
            | (Response ok b, n1) \<Rightarrow>
                if ok
                then Spotify_addBatches srv token playlistId validUris (i + 100)
                       (added' + length batch) failed' n1
                else Spotify_addBatches srv token playlistId validUris (i + 100)
                       added' (failed' + length batch) n1)
      else (Inr \<lparr>added = added', failed = failed'\<rparr>, n))"
  by pat_completeness auto
termination
  by (relation "measure (\<lambda>(srv, token, playlistId, validUris, i, a, f, n). length validUris - i)") auto

declare Spotify_addBatches.simps [simp del]

definition Spotify_addTracks ::
  "('p, spotify_item) server \<Rightarrow> string \<Rightarrow> string \<Rightarrow> track list \<Rightarrow> ('p net, add_counts) remote" where
  "Spotify_addTracks srv token playlistId tracks' n =
     (case Spotify_resolve srv token tracks' n of
        (Inl e, n1) \<Rightarrow> (Inl e, n1)
      | (Inr uris, n1) \<Rightarrow>
          (let validUris = map the (filter (\<lambda>u. u \<noteq> None) uris)
           in Spotify_addBatches srv token playlistId validUris 0
                0 (length uris - length validUris) n1))"

subsection \<open>YouTube Music (youtube.ts)\<close>

text \<open>
  A hit of the search. \<open>yt_videoId\<close> is \<open>None\<close> when the hit has no \<open>id\<close> object, so
  that \<open>item.id.videoId\<close> throws.
\<close>

record youtube_item =
  yt_videoId :: "string option"

text \<open>The object literal of lines 185 to 191, built from \<open>items[0]\<close> and the input track.\<close>

definition youtube_track :: "track \<Rightarrow> youtube_item option \<Rightarrow> error + track" where
  "youtube_track track hit =
     (case hit of
        None \<Rightarrow> Inl type_error
      | Some item \<Rightarrow>
          (case yt_videoId item of
             None \<Rightarrow> Inl type_error
           | Some v \<Rightarrow>
               Inr \<lparr>track_id = v, track_name = track_name track, artist = artist track,
                    album = [], durationMs = 0, isrc = None\<rparr>))"

text \<open>Lines 178 to 194, from the awaited fetch on. The \<open>ok\<close> flag is not read.\<close>

definition YouTube_read :: "track \<Rightarrow> youtube_item response \<Rightarrow> error + track option" where
  "YouTube_read track r =
     (case r of
        Failed e \<Rightarrow> Inl e
      | Response ok (Malformed e) \<Rightarrow> Inl e
      | Response ok JsonNull \<Rightarrow> Inl type_error
      | Response ok (Items []) \<Rightarrow> Inr None
      | Response ok (Items (item # items)) \<Rightarrow>
          (case youtube_track track item of Inl e \<Rightarrow> Inl e | Inr found \<Rightarrow> Inr (Some found)))"

definition YouTube_searchTrack ::
  "('p, youtube_item) server \<Rightarrow> string \<Rightarrow> track \<Rightarrow> ('p net, track option) remote" where
  "YouTube_searchTrack srv token track n =
     (let q = (if artist track \<noteq> [] then artist track @ '' '' @ track_name track
               else track_name track)
      in case fetch srv (TextSearch token q) n of (r, n1) \<Rightarrow> (YouTube_read track r, n1))"

text \<open>Lines 143 to 170: one search and one POST per track.\<close>

fun YouTube_addLoop ::
  "('p, youtube_item) server \<Rightarrow> string \<Rightarrow> string \<Rightarrow> track list \<Rightarrow> nat \<Rightarrow> nat \<Rightarrow>
   ('p net, add_counts) remote" where
  "YouTube_addLoop srv token playlistId [] added' failed' n =
     (Inr \<lparr>added = added', failed = failed'\<rparr>, n)"
| "YouTube_addLoop srv token playlistId (track # rest) added' failed' n =
     (case YouTube_searchTrack srv token track n of
        (Inl e, n1) \<Rightarrow> (Inl e, n1)
      | (Inr None, n1) \<Rightarrow> YouTube_addLoop srv token playlistId rest added' (failed' + 1) n1
      | (Inr (Some found), n1) \<Rightarrow>
          (case fetch srv (AddItems token playlistId [track_id found]) n1 of
             (Failed e, n2) \<Rightarrow> (Inl e, n2)
           | (Response ok b, n2) \<Rightarrow>
               if ok then YouTube_addLoop srv token playlistId rest (added' + 1) failed' n2
               else YouTube_addLoop srv token playlistId rest added' (failed' + 1) n2))"

definition YouTube_addTracks ::
  "('p, youtube_item) server \<Rightarrow> string \<Rightarrow> string \<Rightarrow> track list \<Rightarrow> ('p net, add_counts) remote" where
  "YouTube_addTracks srv token playlistId tracks' n =
     YouTube_addLoop srv token playlistId tracks' 0 0 n"

subsection \<open>KKBox (kkbox.ts)\<close>

record kkbox_item =
  kk_id :: string
  kk_title :: "string option"
  kk_name :: string
  kk_artist :: "string option"
  kk_album :: "string option"
  kk_duration :: "int option"
  kk_isrc :: "string option"

text \<open>The object literal of lines 186 to 193, built from \<open>tracks[0]\<close>.\<close>

definition kkbox_track :: "kkbox_item option \<Rightarrow> error + track" where
  "kkbox_track hit =
     (case hit of
        None \<Rightarrow> Inl type_error
      | Some r \<Rightarrow>
          Inr \<lparr>track_id = kk_id r, track_name = or_else (kk_title r) (kk_name r),
               artist = or_else (kk_artist r) [], album = or_else (kk_album r) [],
               durationMs = (case kk_duration r of None \<Rightarrow> 0 | Some d \<Rightarrow> d) * 1000,
               isrc = kk_isrc r\<rparr>)"

text \<open>
  Lines 170 to 196, from the awaited fetch on: a response that is not \<open>ok\<close> gives
  \<open>null\<close> before its body is read.
\<close>

definition KKBox_read :: "kkbox_item response \<Rightarrow> error + track option" where
  "KKBox_read r =
     (case r of
        Failed e \<Rightarrow> Inl e
      | Response ok b \<Rightarrow>
          if \<not> ok then Inr None
          else (case b of
                  Malformed e \<Rightarrow> Inl e
                | JsonNull \<Rightarrow> Inl type_error
                | Items [] \<Rightarrow> Inr None
                | Items (t # ts) \<Rightarrow>
                    (case kkbox_track t of Inl e \<Rightarrow> Inl e | Inr found \<Rightarrow> Inr (Some found))))"

text \<open>Lines 168 to 197: one free-text search.\<close>

definition KKBox_searchTrack ::
  "('p, kkbox_item) server \<Rightarrow> string \<Rightarrow> track \<Rightarrow> ('p net, track option) remote" where
  "KKBox_searchTrack srv token track n =
     (case fetch srv (TextSearch token (trim (track_name track @ '' '' @ artist track))) n of
        (r, n1) \<Rightarrow> (KKBox_read r, n1))"

text \<open>Lines 134 to 142: the tracks found on the platform, and the count of the others.\<close>

fun KKBox_resolve ::
  "('p, kkbox_item) server \<Rightarrow> string \<Rightarrow> track list \<Rightarrow> track list \<Rightarrow> nat \<Rightarrow>
   ('p net, track list \<times> nat) remote" where
  "KKBox_resolve srv token [] resolvedTracks failed' n = (Inr (resolvedTracks, failed'), n)"
| "KKBox_resolve srv token (track # rest) resolvedTracks failed' n =
     (case KKBox_searchTrack srv token track n of
        (Inl e, n1) \<Rightarrow> (Inl e, n1)
      | (Inr (Some found), n1) \<Rightarrow>
          KKBox_resolve srv token rest (resolvedTracks @ [found]) failed' n1
      | (Inr None, n1) \<Rightarrow> KKBox_resolve srv token rest resolvedTracks (failed' + 1) n1)"

definition KKBox_addTracks ::
  "('p, kkbox_item) server \<Rightarrow> string \<Rightarrow> string \<Rightarrow> track list \<Rightarrow> ('p net, add_counts) remote" where
  "KKBox_addTracks srv token playlistId tracks' n =
     (case KKBox_resolve srv token tracks' [] 0 n of
        (Inl e, n1) \<Rightarrow> (Inl e, n1)
      | (Inr (resolvedTracks, failed'), n1) \<Rightarrow>
          if length resolvedTracks > 0 then
            (case fetch srv (AddItems token playlistId (map track_id resolvedTracks)) n1 of
               (Failed e, n2) \<Rightarrow> (Inl e, n2)
             | (Response ok b, n2) \<Rightarrow>
                 if ok then (Inr \<lparr>added = length resolvedTracks, failed = failed'\<rparr>, n2)
                 else (Inr \<lparr>added = 0, failed = failed' + length resolvedTracks\<rparr>, n2))
          else (Inr \<lparr>added = 0, failed = failed'\<rparr>, n1))"

subsection \<open>Apple Music (apple-music.ts)\<close>

text \<open>
  \<open>getHeaders\<close> (lines 33 to 39) signs a developer token with the private key of the
  process, and throws when \<open>generateDeveloperToken\<close> does (no key, or a key that
  \<open>crypto.sign\<close> refuses). The key is fixed for the process, so the parameter \<open>signing\<close>
  says what each call of \<open>getHeaders\<close> throws, if anything.
\<close>

definition getHeaders :: "error option \<Rightarrow> error + unit" where
  "getHeaders signing = (case signing of Some e \<Rightarrow> Inl e | None \<Rightarrow> Inr ())"

text \<open>
  A hit of the search. \<open>ap_attributes\<close> is \<open>None\<close> when the hit has no \<open>attributes\<close>
  object, so that \<open>song.attributes.name\<close> throws.
\<close>

record apple_attributes =
  ap_name :: string
  ap_artistName :: string
  ap_albumName :: "string option"
  ap_durationInMillis :: int
  ap_isrc :: "string option"

record apple_item =
  ap_id :: string
  ap_attributes :: "apple_attributes option"

text \<open>The object literal of lines 166 to 173 and 188 to 195.\<close>

definition apple_track :: "apple_item option \<Rightarrow> error + track" where
  "apple_track hit =
     (case hit of
        None \<Rightarrow> Inl type_error
      | Some song \<Rightarrow>
          (case ap_attributes song of
             None \<Rightarrow> Inl type_error
           | Some a \<Rightarrow>
               Inr \<lparr>track_id = ap_id song, track_name = ap_name a, artist = ap_artistName a,
                    album = or_else (ap_albumName a) [], durationMs = ap_durationInMillis a,
                    isrc = ap_isrc a\<rparr>))"

text \<open>
  Lines 161 to 175 and 181 to 198, from the awaited fetch on: the body is read only
  when the response is \<open>ok\<close>. \<open>None\<close> is what leaves the \<open>if\<close> of the lookup by ISRC
  and what the text search returns as \<open>null\<close>.
\<close>

definition Apple_read :: "apple_item response \<Rightarrow> error + track option" where
  "Apple_read r =
     (case r of
        Failed e \<Rightarrow> Inl e
      | Response ok b \<Rightarrow>
          if \<not> ok then Inr None
          else (case b of
                  Malformed e \<Rightarrow> Inl e
                | JsonNull \<Rightarrow> Inl type_error
                | Items [] \<Rightarrow> Inr None
                | Items (song # songs) \<Rightarrow>
                    (case apple_track song of Inl e \<Rightarrow> Inl e | Inr found \<Rightarrow> Inr (Some found))))"

text \<open>Lines 178 to 198: the text search.\<close>

definition Apple_textSearch ::
  "('p, apple_item) server \<Rightarrow> string \<Rightarrow> track \<Rightarrow> ('p net, track option) remote" where
  "Apple_textSearch srv token track n =
     (case fetch srv (TextSearch token (artist track @ '' '' @ track_name track)) n of
        (r, n1) \<Rightarrow> (Apple_read r, n1))"

text \<open>
  Lines 155 to 199: the headers are built first; then the lookup by ISRC, and
  everything that does not return or throw there falls through to the text search.
\<close>

definition Apple_searchTrack ::
  "error option \<Rightarrow> ('p, apple_item) server \<Rightarrow> string \<Rightarrow> track \<Rightarrow>
   ('p net, track option) remote" where
  "Apple_searchTrack signing srv token track n =
     (case getHeaders signing of
        Inl e \<Rightarrow> (Inl e, n)
      | Inr headers \<Rightarrow>
          if truthy (isrc track) then
            (case fetch srv (IsrcSearch token (the (isrc track))) n of
               (r, n1) \<Rightarrow>
                 (case Apple_read r of
                    Inl e \<Rightarrow> (Inl e, n1)
                  | Inr (Some found) \<Rightarrow> (Inr (Some found), n1)
                  | Inr None \<Rightarrow> Apple_textSearch srv token track n1))
          else Apple_textSearch srv token track n)"

fun Apple_resolve ::
  "error option \<Rightarrow> ('p, apple_item) server \<Rightarrow> string \<Rightarrow> track list \<Rightarrow> track list \<Rightarrow> nat \<Rightarrow>
   ('p net, track list \<times> nat) remote" where
  "Apple_resolve signing srv token [] resolvedTracks failed' n =
     (Inr (resolvedTracks, failed'), n)"
| "Apple_resolve signing srv token (track # rest) resolvedTracks failed' n =
     (case Apple_searchTrack signing srv token track n of
        (Inl e, n1) \<Rightarrow> (Inl e, n1)
      | (Inr (Some found), n1) \<Rightarrow>
          Apple_resolve signing srv token rest (resolvedTracks @ [found]) failed' n1
      | (Inr None, n1) \<Rightarrow>
          Apple_resolve signing srv token rest resolvedTracks (failed' + 1) n1)"

text \<open>Lines 121 to 153; the POST of line 138 builds its headers as well.\<close>

definition Apple_addTracks ::
  "error option \<Rightarrow> ('p, apple_item) server \<Rightarrow> string \<Rightarrow> string \<Rightarrow> track list \<Rightarrow>
   ('p net, add_counts) remote" where
  "Apple_addTracks signing srv token playlistId tracks' n =
     (case Apple_resolve signing srv token tracks' [] 0 n of
        (Inl e, n1) \<Rightarrow> (Inl e, n1)
      | (Inr (resolvedTracks, failed'), n1) \<Rightarrow>
          if length resolvedTracks > 0 then
            (case getHeaders signing of
               Inl e \<Rightarrow> (Inl e, n1)
             | Inr headers \<Rightarrow>
                 (case fetch srv (AddItems token playlistId (map track_id resolvedTracks)) n1 of
                    (Failed e, n2) \<Rightarrow> (Inl e, n2)
                  | (Response ok b, n2) \<Rightarrow>
                      if ok then (Inr \<lparr>added = length resolvedTracks, failed = failed'\<rparr>, n2)
                      else (Inr \<lparr>added = 0, failed = failed' + length resolvedTracks\<rparr>, n2)))
          else (Inr \<lparr>added = 0, failed = failed'\<rparr>, n1))"

section \<open>Example inputs\<close>

text \<open>
  Three tracks, a listing of two playlists, and two providers over a world that counts
  the playlists created. The target finds every track but \<open>s2\<close>.
\<close>

definition song1 :: track where
  "song1 = \<lparr>track_id = ''s1'', track_name = ''Song'', artist = ''Ann'', album = ''LP'',
            durationMs = 1000, isrc = Some ''US1''\<rparr>"

definition song2 :: track where
  "song2 = \<lparr>track_id = ''s2'', track_name = ''Tune'', artist = ''Bob'', album = ''EP'',
            durationMs = 2000, isrc = None\<rparr>"

definition song3 :: track where
  "song3 = \<lparr>track_id = ''s3'', track_name = ''Air'', artist = ''Cy'', album = [],
            durationMs = 3000, isrc = None\<rparr>"

definition road :: playlist where
  "road = \<lparr>playlist_id = ''p1'', playlist_name = ''Road'', description = Some [],
           trackCount = 7, tracks = [], imageUrl = None\<rparr>"

definition gym :: playlist where
  "gym = \<lparr>playlist_id = ''p2'', playlist_name = ''Gym'', description = Some ''Loud'',
          trackCount = 0, tracks = [], imageUrl = Some ''img''\<rparr>"

definition unused :: "('w, 'a) remote" where
  "unused w = (Inl (Error ''unused''), w)"

definition demo_source :: "'w MusicProvider" where
  "demo_source =
     \<lparr>provider_name = ''Spotify'',
      getPlaylists = (\<lambda>token w. (Inr [gym, road], w)),
      getPlaylistTracks = (\<lambda>token playlistId w. (Inr [song1, song2, song3], w)),
      createPlaylist = (\<lambda>token name' description'. unused),
      addTracks = (\<lambda>token playlistId tracks'. unused),
      searchTrack = (\<lambda>token track. unused)\<rparr>"

definition demo_target :: "nat MusicProvider" where
  "demo_target =
     \<lparr>provider_name = ''KKBox'',
      getPlaylists = (\<lambda>token. unused),
      getPlaylistTracks = (\<lambda>token playlistId. unused),
      createPlaylist = (\<lambda>token name' description' w. (Inr ''new'', Suc w)),
      addTracks = (\<lambda>token playlistId tracks' w. (Inr \<lparr>added = length tracks', failed = 0\<rparr>, w)),
      searchTrack = (\<lambda>token track w.
         (Inr (if track_id track = ''s2'' then None
               else Some (track\<lparr>track_id := ''k'' @ track_id track\<rparr>)), w))\<rparr>"

text \<open>The same target, whose \<open>addTracks\<close> adds nothing.\<close>

definition demo_target_failing :: "nat MusicProvider" where
  "demo_target_failing =
     demo_target\<lparr>addTracks :=
       (\<lambda>token playlistId tracks' w. (Inr \<lparr>added = 0, failed = length tracks'\<rparr>, w))\<rparr>"

text \<open>
  A target over a world that lists the playlists created, each with its name and
  description; an id is the number of playlists created before. It finds no track.
\<close>

definition recording_target :: "(string \<times> string option) list MusicProvider" where
  "recording_target =
     \<lparr>provider_name = ''KKBox'',
      getPlaylists = (\<lambda>token. unused),
      getPlaylistTracks = (\<lambda>token playlistId. unused),
      createPlaylist = (\<lambda>token name' description' w.
         (Inr (show_nat (length w)), w @ [(name', description')])),
      addTracks = (\<lambda>token playlistId tracks' w. (Inr \<lparr>added = 0, failed = length tracks'\<rparr>, w)),
      searchTrack = (\<lambda>token track w. (Inr None, w))\<rparr>"

text \<open>A target that refuses to create a playlist.\<close>

definition refusing_target :: "(string \<times> string option) list MusicProvider" where
  "refusing_target =
     recording_target\<lparr>createPlaylist :=
       (\<lambda>token name' description' w. (Inl (Error ''quota''), w @ [(name', description')]))\<rparr>"

text \<open>
  Platforms without state. \<open>demo_server\<close> has one hit for the ISRC \<open>US1\<close> and one hit
  for each of the known text queries; \<open>srv_empty\<close> finds nothing, \<open>srv_denied\<close>
  answers every request with an error status, \<open>srv_down\<close> cannot be reached,
  \<open>srv_text_down\<close> has no hit for any ISRC and rejects every other request, and
  \<open>srv_null\<close> answers every request with the body \<open>null\<close>.
\<close>

definition net0 :: "unit net" where
  "net0 = \<lparr>sent = [], platform = ()\<rparr>"

definition demo_server :: "'i \<Rightarrow> 'i \<Rightarrow> string list \<Rightarrow> (unit, 'i) server" where
  "demo_server isrc_hit text_hit known rq p =
     (case rq of
        IsrcSearch token c \<Rightarrow>
          (Response True (Items (if c = ''US1'' then [Some isrc_hit] else [])), p)
      | TextSearch token q \<Rightarrow>
          (Response True (Items (if q \<in> set known then [Some text_hit] else [])), p)
      | AddItems token playlistId ids \<Rightarrow> (Response True (Items []), p))"






definition sp_by_isrc :: spotify_item where
  "sp_by_isrc = \<lparr>sp_id = ''a1'', sp_name = ''Song'', sp_artists = Some [''Ann''], sp_album = Some ''LP'',
                 sp_duration_ms = 1000, sp_isrc = Some ''US1''\<rparr>"

definition sp_by_text :: spotify_item where
  "sp_by_text = \<lparr>sp_id = ''b1'', sp_name = ''Song (Live)'', sp_artists = Some [''Ann'', ''Bob''],
                 sp_album = None, sp_duration_ms = 1500, sp_isrc = Some ''US2''\<rparr>"

definition kk_by_isrc :: kkbox_item where
  "kk_by_isrc = \<lparr>kk_id = ''a1'', kk_title = None, kk_name = ''Song'', kk_artist = Some ''Ann'',
                 kk_album = Some ''LP'', kk_duration = Some 1, kk_isrc = Some ''US1''\<rparr>"

definition kk_by_text :: kkbox_item where
  "kk_by_text = \<lparr>kk_id = ''b1'', kk_title = Some ''Song (Live)'', kk_name = ''Song'',
                 kk_artist = Some ''Ann'', kk_album = None, kk_duration = None,
                 kk_isrc = Some ''US2''\<rparr>"

definition ap_by_isrc :: apple_item where
  "ap_by_isrc =
     \<lparr>ap_id = ''a1'',
      ap_attributes = Some \<lparr>ap_name = ''Song'', ap_artistName = ''Ann'', ap_albumName = Some ''LP'',
                            ap_durationInMillis = 1000, ap_isrc = Some ''US1''\<rparr>\<rparr>"

definition ap_by_text :: apple_item where
  "ap_by_text =
     \<lparr>ap_id = ''b1'',
      ap_attributes = Some \<lparr>ap_name = ''Song (Live)'', ap_artistName = ''Ann'', ap_albumName = None,
                            ap_durationInMillis = 1500, ap_isrc = Some ''US2''\<rparr>\<rparr>"

definition yt_by_isrc :: youtube_item where
  "yt_by_isrc = \<lparr>yt_videoId = Some ''a1''\<rparr>"

definition yt_by_text :: youtube_item where
  "yt_by_text = \<lparr>yt_videoId = Some ''b1''\<rparr>"

text \<open>The text queries that the four adapters build for \<open>song1\<close>.\<close>

definition known_queries :: "string list" where
  "known_queries = [''track:Song artist:Ann'', ''Ann Song'', ''Song Ann'']"

section \<open>Properties of the transfer engine\<close>

subsection \<open>The steps of a run\<close>

lemma notify_fields [simp]:
  "world (notify op p s) = world s"
  "calls (notify op p s) = calls s"
  "listing (notify op p s) = listing s"
  "events (notify op p s) = events s @ (if op then [p] else [])"
  by (simp_all add: notify_def)

lemma invoke_eq:
  "f (world s) = (r, w') \<Longrightarrow>
   invoke c wrap f s =
     (r, s\<lparr>world := w', calls := calls s @ [(c, case r of Inl e \<Rightarrow> Rejected e | Inr v \<Rightarrow> wrap v)]\<rparr>)"
  by (simp add: invoke_def)

text \<open>
  The matching loop, when no search rejects: \<open>fs\<close> are the answers of the searches.
\<close>

lemma matchTracks_ok:
  "matchTracks tp tok op n i ts m u s = (Inr (m', u'), s') \<Longrightarrow>
   \<exists>fs ws. length fs = length ts
      \<and> length ws = Suc (length ts) \<and> ws ! 0 = world s \<and> ws ! length ts = world s'
      \<and> (\<forall>k<length ts. searchTrack tp tok (ts ! k) (ws ! k) = (Inr (fs ! k), ws ! Suc k))
      \<and> calls s' = calls s @ map2 (\<lambda>t f. (SearchTrack Target tok t, Found f)) ts fs
      \<and> m' = m @ map the (filter (\<lambda>f. f \<noteq> None) fs)
      \<and> u' = u @ map fst (filter (\<lambda>(t, f). f = None) (zip ts fs))
      \<and> events s' = events s @ (if op then map2 (matching_event n) [i ..< i + length ts] ts else [])
      \<and> listing s' = listing s"
proof (induction ts arbitrary: i m u s)
  case Nil
  then show ?case by (intro exI [of _ "[]"] exI [of _ "[world s]"]) auto
next
  case (Cons t ts)
  obtain r w' where sr: "searchTrack tp tok t (world s) = (r, w')"
    by (cases "searchTrack tp tok t (world s)")
  show ?case
  proof (cases r)
    case (Inl e)
    with Cons.prems sr show ?thesis
      by (simp add: invoke_eq Let_def)
  next
    case (Inr found)
    let ?s2 = "(notify op (matching_event n i t) s)\<lparr>world := w',
        calls := calls s @ [(SearchTrack Target tok t, Found found)]\<rparr>"
    let ?m2 = "case found of None \<Rightarrow> m | Some x \<Rightarrow> m @ [x]"
    let ?u2 = "case found of None \<Rightarrow> u @ [t] | Some x \<Rightarrow> u"
    from Cons.prems sr Inr
    have "matchTracks tp tok op n (i + 1) ts ?m2 ?u2 ?s2 = (Inr (m', u'), s')"
      by (cases found) (simp_all add: invoke_eq Let_def)
    from Cons.IH [OF this] obtain fs ws where fs: "length fs = length ts"
      "length ws = Suc (length ts)" "ws ! 0 = world ?s2" "ws ! length ts = world s'"
      "\<forall>k<length ts. searchTrack tp tok (ts ! k) (ws ! k) = (Inr (fs ! k), ws ! Suc k)"
      "calls s' = calls ?s2 @ map2 (\<lambda>t f. (SearchTrack Target tok t, Found f)) ts fs"
      "m' = ?m2 @ map the (filter (\<lambda>f. f \<noteq> None) fs)"
      "u' = ?u2 @ map fst (filter (\<lambda>(t, f). f = None) (zip ts fs))"
      "events s' = events ?s2 @ (if op then map2 (matching_event n) [i + 1 ..< i + 1 + length ts] ts else [])"
      "listing s' = listing ?s2"
      by blast
    have upt: "[i ..< i + length (t # ts)] = i # [i + 1 ..< i + 1 + length ts]"
      by (simp add: upt_conv_Cons del: upt_Suc)
    have chain: "\<forall>k<length (t # ts).
        searchTrack tp tok ((t # ts) ! k) ((world s # ws) ! k)
          = (Inr ((found # fs) ! k), (world s # ws) ! Suc k)"
    proof (intro allI impI)
      fix k assume "k < length (t # ts)"
      then show "searchTrack tp tok ((t # ts) ! k) ((world s # ws) ! k)
          = (Inr ((found # fs) ! k), (world s # ws) ! Suc k)"
        using fs(3,5) sr Inr by (cases k) simp_all
    qed
    have m': "m' = m @ map the (filter (\<lambda>f. f \<noteq> None) (found # fs))"
      and u': "u' = u @ map fst (filter (\<lambda>(t, f). f = None) (zip (t # ts) (found # fs)))"
      using fs(7,8) by (cases found; simp)+
    from fs(1,2,4,6,9,10) upt chain m' u' show ?thesis
      by (intro exI [of _ "found # fs"] exI [of _ "world s # ws"]) (simp del: upt_Suc)
  qed
qed

text \<open>
  A run that returns a result went through every step; \<open>s8\<close> is the state after the
  target playlist was created and \<open>s9\<close> the state after the matching loop.
\<close>

lemma transferPlaylist_okE:
  assumes "transferPlaylist src tgt st tt pid op s0 = (Inr r, s')"
  obtains pls w1 p ts w2 tid s8 m u s9 cnt where
    "getPlaylists src st (world s0) = (Inr pls, w1)"
    "find (\<lambda>p. playlist_id p = pid) pls = Some p"
    "getPlaylistTracks src st pid w1 = (Inr ts, w2)"
    "createPlaylist tgt tt (playlist_name p)
       (Some (or_else (description p) (''Transferred from '' @ provider_name src))) w2
       = (Inr tid, world s8)"
    "events s8 = events s0 @ (if op then [fetching_event, reading_event p,
        creating_event (p\<lparr>tracks := ts, trackCount := length ts\<rparr>) (provider_name tgt) (length ts)] else [])"
    "calls s8 = calls s0 @ [(GetPlaylists Source st, Playlists pls),
        (GetPlaylistTracks Source st pid, Tracks ts),
        (CreatePlaylist Target tt (playlist_name p)
           (Some (or_else (description p) (''Transferred from '' @ provider_name src))),
         PlaylistId tid)]"
    "listing s8 = update_first (\<lambda>p. playlist_id p = pid)
                    (\<lambda>p. p\<lparr>tracks := ts, trackCount := length ts\<rparr>) pls"
    "matchTracks tgt tt op (length ts) 0 ts [] [] s8 = (Inr (m, u), s9)"
    "addTracks tgt tt tid m (world s9) = (Inr cnt, world s')"
    "r = \<lparr>sourcePlaylist = p\<lparr>tracks := ts, trackCount := length ts\<rparr>, targetPlaylistId = tid,
          matched = m, unmatched = u, totalTracks = length ts\<rparr>"
    "events s' = events s9 @ (if op then [transferring_event (length m),
                     complete_event (length m) (length ts) cnt (length u)] else [])"
    "calls s' = calls s9 @ [(AddTracks Target tt tid m, Counts cnt)]"
    "listing s' = listing s9"
proof -
  from assms obtain pls w1 where
    1: "getPlaylists src st (world s0) = (Inr pls, w1)"
    by (auto simp: transferPlaylist_def Let_def invoke_def split: prod.splits sum.splits)
  from assms 1 obtain p where 2: "find (\<lambda>p. playlist_id p = pid) pls = Some p"
    by (auto simp: transferPlaylist_def Let_def invoke_eq split: option.splits)
  from assms 1 2 obtain ts w2 where 3: "getPlaylistTracks src st pid w1 = (Inr ts, w2)"
    by (auto simp: transferPlaylist_def Let_def invoke_eq invoke_def split: prod.splits sum.splits)
  let ?desc = "or_else (description p) (''Transferred from '' @ provider_name src)"
  from assms 1 2 3 obtain tid w3 where
    4: "createPlaylist tgt tt (playlist_name p) (Some ?desc) w2 = (Inr tid, w3)"
    by (auto simp: transferPlaylist_def Let_def invoke_eq invoke_def split: prod.splits sum.splits)
  define s3 where "s3 = (notify op fetching_event s0)
     \<lparr>world := w1, calls := calls s0 @ [(GetPlaylists Source st, Playlists pls)], listing := pls\<rparr>"
  define s6 where "s6 = (notify op (reading_event p) s3)
     \<lparr>world := w2, calls := calls s3 @ [(GetPlaylistTracks Source st pid, Tracks ts)],
      listing := update_first (\<lambda>p. playlist_id p = pid)
                    (\<lambda>p. p\<lparr>tracks := ts, trackCount := length ts\<rparr>) pls\<rparr>"
  define s8 where "s8 = (notify op
       (creating_event (p\<lparr>tracks := ts, trackCount := length ts\<rparr>) (provider_name tgt) (length ts)) s6)
     \<lparr>world := w3,
      calls := calls s6 @ [(CreatePlaylist Target tt (playlist_name p) (Some ?desc), PlaylistId tid)]\<rparr>"
  have rest: "(case matchTracks tgt tt op (length ts) 0 ts [] [] s8 of
          (Inl e, s9) \<Rightarrow> (Inl e, s9)
        | (Inr (m, u), s9) \<Rightarrow>
        (let s10 = notify op (transferring_event (length m)) s9
         in case invoke (AddTracks Target tt tid m) Counts (addTracks tgt tt tid m) s10 of
           (Inl e, s11) \<Rightarrow> (Inl e, s11)
         | (Inr result, s11) \<Rightarrow>
         (let s12 = notify op (complete_event (length m) (length ts) result (length u)) s11
          in (Inr \<lparr>sourcePlaylist = p\<lparr>tracks := ts, trackCount := length ts\<rparr>, targetPlaylistId = tid,
                   matched = m, unmatched = u, totalTracks = length ts\<rparr>, s12)))) = (Inr r, s')"
    using assms 1 2 3 4
    by (simp add: transferPlaylist_def Let_def invoke_eq s8_def s6_def s3_def)
  then obtain m u s9 where 5: "matchTracks tgt tt op (length ts) 0 ts [] [] s8 = (Inr (m, u), s9)"
    by (auto split: prod.splits sum.splits)
  from rest 5 obtain cnt w4 where 6: "addTracks tgt tt tid m (world s9) = (Inr cnt, w4)"
    by (auto simp: Let_def invoke_def split: prod.splits sum.splits)
  from rest 5 6 have 7:
    "r = \<lparr>sourcePlaylist = p\<lparr>tracks := ts, trackCount := length ts\<rparr>, targetPlaylistId = tid,
          matched = m, unmatched = u, totalTracks = length ts\<rparr>"
    and 8: "s' = notify op (complete_event (length m) (length ts) cnt (length u))
                 ((notify op (transferring_event (length m)) s9)
                    \<lparr>world := w4, calls := calls s9 @ [(AddTracks Target tt tid m, Counts cnt)]\<rparr>)"
    by (simp_all add: Let_def invoke_eq)
  show thesis
  proof (rule that [OF 1 2 3 _ _ _ _ 5 _ 7])
    show "createPlaylist tgt tt (playlist_name p) (Some ?desc) w2 = (Inr tid, world s8)"
      using 4 by (simp add: s8_def)
    show "addTracks tgt tt tid m (world s9) = (Inr cnt, world s')"
      using 6 8 by simp
    show "events s' = events s9 @ (if op then [transferring_event (length m),
                     complete_event (length m) (length ts) cnt (length u)] else [])"
      using 8 by (simp add: notify_def)
    show "calls s' = calls s9 @ [(AddTracks Target tt tid m, Counts cnt)]"
      using 8 by simp
    show "listing s' = listing s9"
      using 8 by simp
  qed (simp_all add: s8_def s6_def s3_def)
qed


lemma matchTracks_calls:
  "\<exists>cs. calls (snd (matchTracks tp tok op n i ts m u s)) = calls s @ cs"
proof (induction ts arbitrary: i m u s)
  case Nil
  then show ?case by simp
next
  case (Cons t ts)
  obtain r w' where sr: "searchTrack tp tok t (world s) = (r, w')"
    by (cases "searchTrack tp tok t (world s)")
  let ?s2 = "(notify op (matching_event n i t) s)\<lparr>world := w',
      calls := calls s @ [(SearchTrack Target tok t, case r of Inl e \<Rightarrow> Rejected e | Inr v \<Rightarrow> Found v)]\<rparr>"
  show ?case
  proof (cases r)
    case (Inl e)
    with sr show ?thesis by (simp add: invoke_eq Let_def)
  next
    case (Inr found)
    show ?thesis
    proof (cases found)
      case None
      from Cons.IH [of "i + 1" m "u @ [t]" ?s2] sr Inr None show ?thesis
        by (auto simp: invoke_eq Let_def)
    next
      case (Some x)
      from Cons.IH [of "i + 1" "m @ [x]" u ?s2] sr Inr Some show ?thesis
        by (auto simp: invoke_eq Let_def)
    qed
  qed
qed

lemma matchTracks_cong:
  "searchTrack tp = searchTrack tp' \<Longrightarrow>
   matchTracks tp tok op n i ts m u s = matchTracks tp' tok op n i ts m u s"
  by (induction ts arbitrary: i m u s) (auto simp: Let_def split: prod.splits sum.splits option.splits)


lemma find_None_iff': "find P xs = None \<longleftrightarrow> (\<forall>x\<in>set xs. \<not> P x)"
  by (induction xs) auto



text \<open>The example transfer of the playlist \<open>p1\<close> returns this result.\<close>

lemma demo_run:
  "\<exists>s'. transferPlaylist demo_source demo_target st tt ''p1'' op (start 0)
     = (Inr \<lparr>sourcePlaylist = road\<lparr>tracks := [song1, song2, song3], trackCount := 3\<rparr>,
             targetPlaylistId = ''new'',
             matched = [song1\<lparr>track_id := ''ks1''\<rparr>, song3\<lparr>track_id := ''ks3''\<rparr>],
             unmatched = [song2], totalTracks = 3\<rparr>, s')"
  by (simp add: transferPlaylist_def demo_source_def demo_target_def Let_def invoke_def
      gym_def road_def song1_def song2_def song3_def start_def)



text \<open>
  C2. When \<open>transferPlaylist\<close> returns a result, the target's \<open>searchTrack\<close> was called
  once for each source track, in source order, each call on the world the previous one
  left (the first on the world left by \<open>createPlaylist\<close>), and none rejected. With \<open>fs\<close>
  the answers of these calls, \<open>matched\<close> holds the tracks that were returned, in that
  order, and \<open>unmatched\<close> the source tracks for which the answer was nothing, in that
  order; the two lengths add up to \<open>totalTracks\<close>, the length of the track list that
  the source's \<open>getPlaylistTracks\<close> returned.
\<close>

theorem every_track_matched_or_unmatched:
  assumes "transferPlaylist src tgt st tt pid op (start w) = (Inr r, s')"
  shows "\<exists>pls w1 ts w2 ws fs.
         getPlaylists src st w = (Inr pls, w1)
       \<and> getPlaylistTracks src st pid w1 = (Inr ts, w2)
       \<and> createPlaylist tgt tt (playlist_name (sourcePlaylist r))
            (Some (or_else (description (sourcePlaylist r))
                     (''Transferred from '' @ provider_name src))) w2
           = (Inr (targetPlaylistId r), ws ! 0)
       \<and> length ws = Suc (length ts) \<and> length fs = length ts
       \<and> (\<forall>k<length ts. searchTrack tgt tt (ts ! k) (ws ! k) = (Inr (fs ! k), ws ! Suc k))
       \<and> matched r = map the (filter (\<lambda>f. f \<noteq> None) fs)
       \<and> unmatched r = map fst (filter (\<lambda>(t, f). f = None) (zip ts fs))
       \<and> totalTracks r = length ts
       \<and> length (matched r) + length (unmatched r) = totalTracks r
       \<and> calls s' ! 1 = (GetPlaylistTracks Source st pid, Tracks ts)
       \<and> take (length ts) (drop 3 (calls s'))
           = map2 (\<lambda>t f. (SearchTrack Target tt t, Found f)) ts fs"
proof -
  from assms obtain pls w1 p ts w2 tid s8 m u s9 cnt where
    gp: "getPlaylists src st (world (start w)) = (Inr pls, w1)"
    and gt: "getPlaylistTracks src st pid w1 = (Inr ts, w2)"
    and cp: "createPlaylist tgt tt (playlist_name p)
       (Some (or_else (description p) (''Transferred from '' @ provider_name src))) w2
       = (Inr tid, world s8)"
    and c8: "calls s8 = calls (start w) @ [(GetPlaylists Source st, Playlists pls),
        (GetPlaylistTracks Source st pid, Tracks ts),
        (CreatePlaylist Target tt (playlist_name p)
           (Some (or_else (description p) (''Transferred from '' @ provider_name src))),
         PlaylistId tid)]"
    and mt: "matchTracks tgt tt op (length ts) 0 ts [] [] s8 = (Inr (m, u), s9)"
    and r: "r = \<lparr>sourcePlaylist = p\<lparr>tracks := ts, trackCount := length ts\<rparr>, targetPlaylistId = tid,
          matched = m, unmatched = u, totalTracks = length ts\<rparr>"
    and c': "calls s' = calls s9 @ [(AddTracks Target tt tid m, Counts cnt)]"
    by (rule transferPlaylist_okE)
  from matchTracks_ok [OF mt] obtain fs ws where
    len: "length fs = length ts"
    and ws: "length ws = Suc (length ts)" "ws ! 0 = world s8"
    and chain: "\<forall>k<length ts. searchTrack tgt tt (ts ! k) (ws ! k) = (Inr (fs ! k), ws ! Suc k)"
    and c9: "calls s9 = calls s8 @ map2 (\<lambda>t f. (SearchTrack Target tt t, Found f)) ts fs"
    and m: "m = map the (filter (\<lambda>f. f \<noteq> None) fs)"
    and u: "u = map fst (filter (\<lambda>(t, f). f = None) (zip ts fs))"
    by auto
  have split: "length (filter (\<lambda>f. f \<noteq> None) fs)
             + length (filter (\<lambda>(t, f). f = None) (zip ts fs)) = length ts"
    using len
  proof (induction ts fs rule: list_induct2')
    case (4 t ts f fs)
    then show ?case by (cases f) auto
  qed simp_all
  have 0: "getPlaylists src st w = (Inr pls, w1)"
    using gp by (simp add: start_def)
  have 1: "calls s' ! 1 = (GetPlaylistTracks Source st pid, Tracks ts)"
    by (simp add: c' c9 c8 start_def nth_append)
  have 2: "take (length ts) (drop 3 (calls s'))
           = map2 (\<lambda>t f. (SearchTrack Target tt t, Found f)) ts fs"
    using len by (simp add: c' c9 c8 start_def)
  have 3: "createPlaylist tgt tt (playlist_name (sourcePlaylist r))
            (Some (or_else (description (sourcePlaylist r))
                     (''Transferred from '' @ provider_name src))) w2
           = (Inr (targetPlaylistId r), ws ! 0)"
    using cp ws(2) by (simp add: r)
  from 0 gt 3 ws(1) len chain 1 2 m u split show ?thesis
    by (intro exI [of _ pls] exI [of _ w1] exI [of _ ts] exI [of _ w2] exI [of _ ws]
        exI [of _ fs]) (simp add: r)
qed

text \<open>
  The example transfer: the target finds \<open>song1\<close> and \<open>song3\<close> and does not find
  \<open>song2\<close>.
\<close>

theorem every_track_matched_or_unmatched_witness:
  "\<exists>r s'. transferPlaylist demo_source demo_target ''a'' ''b'' ''p1'' True (start 0) = (Inr r, s')
     \<and> fst (searchTrack demo_target ''b'' song1 1) = Inr (Some (song1\<lparr>track_id := ''ks1''\<rparr>))
     \<and> fst (searchTrack demo_target ''b'' song2 1) = Inr None
     \<and> fst (searchTrack demo_target ''b'' song3 1) = Inr (Some (song3\<lparr>track_id := ''ks3''\<rparr>))
     \<and> matched r = [song1\<lparr>track_id := ''ks1''\<rparr>, song3\<lparr>track_id := ''ks3''\<rparr>]
     \<and> unmatched r = [song2]
     \<and> length (matched r) = 2 \<and> length (unmatched r) = 1 \<and> totalTracks r = 3
     \<and> length (matched r) + length (unmatched r) = totalTracks r"
proof -
  from demo_run [of "''a''" "''b''" True] obtain s' where
    run: "transferPlaylist demo_source demo_target ''a'' ''b'' ''p1'' True (start 0)
       = (Inr \<lparr>sourcePlaylist = road\<lparr>tracks := [song1, song2, song3], trackCount := 3\<rparr>,
             targetPlaylistId = ''new'',
             matched = [song1\<lparr>track_id := ''ks1''\<rparr>, song3\<lparr>track_id := ''ks3''\<rparr>],
             unmatched = [song2], totalTracks = 3\<rparr>, s')" ..
  have search: "fst (searchTrack demo_target ''b'' song1 1) = Inr (Some (song1\<lparr>track_id := ''ks1''\<rparr>))"
    "fst (searchTrack demo_target ''b'' song2 1) = Inr None"
    "fst (searchTrack demo_target ''b'' song3 1) = Inr (Some (song3\<lparr>track_id := ''ks3''\<rparr>))"
    by (simp_all add: demo_target_def song1_def song2_def song3_def)
  from every_track_matched_or_unmatched [OF run] run search show ?thesis
    by auto
qed

text \<open>
  C3. When the source's listing has no playlist with the requested id, the engine
  fails with the error \<open>Playlist <id> not found\<close>; the only event delivered is the
  \<open>fetching\<close> event, and the only provider call made is the source's \<open>getPlaylists\<close>,
  so nothing is called on the target and no playlist is created.
\<close>

theorem missing_playlist_not_found:
  assumes "getPlaylists src st w = (Inr pls, w1)"
    and "\<forall>p\<in>set pls. playlist_id p \<noteq> pid"
  shows "\<exists>s'. transferPlaylist src tgt st tt pid op (start w)
             = (Inl (Error (''Playlist '' @ pid @ '' not found'')), s')
       \<and> events s' = (if op then [fetching_event] else [])
       \<and> calls s' = [(GetPlaylists Source st, Playlists pls)]
       \<and> world s' = w1"
proof -
  from assms(2) have "find (\<lambda>p. playlist_id p = pid) pls = None"
    by (simp add: find_None_iff')
  with assms(1) show ?thesis
    by (simp add: transferPlaylist_def Let_def invoke_def notify_def start_def)
qed

text \<open>The example listing has no playlist \<open>p9\<close>.\<close>

theorem missing_playlist_not_found_witness:
  "getPlaylists demo_source ''a'' 0 = (Inr [gym, road], 0)
   \<and> playlist_id gym \<noteq> ''p9'' \<and> playlist_id road \<noteq> ''p9''
   \<and> (\<exists>s'. transferPlaylist demo_source demo_target ''a'' ''b'' ''p9'' True (start 0)
             = (Inl (Error ''Playlist p9 not found''), s')
        \<and> map phase (events s') = [fetching]
        \<and> map fst (calls s') = [GetPlaylists Source ''a''])"
proof -
  have 1: "getPlaylists demo_source ''a'' 0 = (Inr [gym, road], 0)"
    by (simp add: demo_source_def)
  have 2: "\<forall>p\<in>set [gym, road]. playlist_id p \<noteq> ''p9''"
    by (simp add: gym_def road_def)
  from missing_playlist_not_found [OF 1 2, of demo_target "''b''" True] 1 2 show ?thesis
    by (auto simp: fetching_event_def)
qed

text \<open>
  C6. Two runs that differ only in the target's \<open>addTracks\<close>, and so in the counts it
  returns, and that both return a result, return the same result: no field of the
  \<open>TransferResult\<close> reads the counts.
\<close>

theorem result_independent_of_add_counts:
  assumes "transferPlaylist src tgt st tt pid op s0 = (Inr r, s1)"
    and "transferPlaylist src (tgt\<lparr>addTracks := f\<rparr>) st tt pid op s0 = (Inr r', s2)"
  shows "r' = r"
proof -
  let ?tgt' = "tgt\<lparr>addTracks := f\<rparr>"
  from assms(1) obtain pls w1 p ts w2 tid s8 m u s9 cnt where
    a: "getPlaylists src st (world s0) = (Inr pls, w1)"
      "find (\<lambda>p. playlist_id p = pid) pls = Some p"
      "getPlaylistTracks src st pid w1 = (Inr ts, w2)"
      "createPlaylist tgt tt (playlist_name p)
         (Some (or_else (description p) (''Transferred from '' @ provider_name src))) w2
         = (Inr tid, world s8)"
      "events s8 = events s0 @ (if op then [fetching_event, reading_event p,
        creating_event (p\<lparr>tracks := ts, trackCount := length ts\<rparr>) (provider_name tgt) (length ts)] else [])"
      "calls s8 = calls s0 @ [(GetPlaylists Source st, Playlists pls),
        (GetPlaylistTracks Source st pid, Tracks ts),
        (CreatePlaylist Target tt (playlist_name p)
           (Some (or_else (description p) (''Transferred from '' @ provider_name src))),
         PlaylistId tid)]"
      "listing s8 = update_first (\<lambda>p. playlist_id p = pid)
                    (\<lambda>p. p\<lparr>tracks := ts, trackCount := length ts\<rparr>) pls"
      "matchTracks tgt tt op (length ts) 0 ts [] [] s8 = (Inr (m, u), s9)"
      "r = \<lparr>sourcePlaylist = p\<lparr>tracks := ts, trackCount := length ts\<rparr>, targetPlaylistId = tid,
          matched = m, unmatched = u, totalTracks = length ts\<rparr>"
    by (rule transferPlaylist_okE)
  from assms(2) obtain pls' w1' p' ts' w2' tid' s8' m' u' s9' cnt' where
    b: "getPlaylists src st (world s0) = (Inr pls', w1')"
      "find (\<lambda>p. playlist_id p = pid) pls' = Some p'"
      "getPlaylistTracks src st pid w1' = (Inr ts', w2')"
      "createPlaylist ?tgt' tt (playlist_name p')
         (Some (or_else (description p') (''Transferred from '' @ provider_name src))) w2'
         = (Inr tid', world s8')"
      "events s8' = events s0 @ (if op then [fetching_event, reading_event p',
        creating_event (p'\<lparr>tracks := ts', trackCount := length ts'\<rparr>) (provider_name ?tgt') (length ts')] else [])"
      "calls s8' = calls s0 @ [(GetPlaylists Source st, Playlists pls'),
        (GetPlaylistTracks Source st pid, Tracks ts'),
        (CreatePlaylist Target tt (playlist_name p')
           (Some (or_else (description p') (''Transferred from '' @ provider_name src))),
         PlaylistId tid')]"
      "listing s8' = update_first (\<lambda>p. playlist_id p = pid)
                    (\<lambda>p. p\<lparr>tracks := ts', trackCount := length ts'\<rparr>) pls'"
      "matchTracks ?tgt' tt op (length ts') 0 ts' [] [] s8' = (Inr (m', u'), s9')"
      "r' = \<lparr>sourcePlaylist = p'\<lparr>tracks := ts', trackCount := length ts'\<rparr>, targetPlaylistId = tid',
          matched = m', unmatched = u', totalTracks = length ts'\<rparr>"
    by (rule transferPlaylist_okE)
  from a(1) b(1) have pls: "pls' = pls" "w1' = w1" by simp_all
  with a(2) b(2) have p: "p' = p" by simp
  from a(3) b(3) pls have ts: "ts' = ts" "w2' = w2" by simp_all
  from a(4) b(4) p ts have tid: "tid' = tid" "world s8' = world s8" by simp_all
  have "s8' = s8"
    using a(5-7) b(5-7) pls p ts tid by (cases s8; cases s8') simp
  moreover have "matchTracks ?tgt' tt op (length ts) 0 ts [] [] s8
               = matchTracks tgt tt op (length ts) 0 ts [] [] s8"
    by (rule matchTracks_cong) simp
  ultimately have "m' = m" "u' = u"
    using a(8) b(8) ts by simp_all
  with a(9) b(9) p ts tid show ?thesis by simp
qed

text \<open>
  The example transfer with a target that adds both tracks and with one that adds
  neither.
\<close>

theorem result_independent_of_add_counts_witness:
  "\<exists>r s1 r' s2.
     transferPlaylist demo_source demo_target ''a'' ''b'' ''p1'' True (start 0) = (Inr r, s1)
   \<and> transferPlaylist demo_source demo_target_failing ''a'' ''b'' ''p1'' True (start 0) = (Inr r', s2)
   \<and> snd (last (calls s1)) = Counts \<lparr>added = 2, failed = 0\<rparr>
   \<and> snd (last (calls s2)) = Counts \<lparr>added = 0, failed = 2\<rparr>
   \<and> r' = r"
proof -
  have 1: "transferPlaylist demo_source demo_target ''a'' ''b'' ''p1'' True (start 0)
     = (Inr (projr (fst (transferPlaylist demo_source demo_target ''a'' ''b'' ''p1'' True (start 0)))),
        snd (transferPlaylist demo_source demo_target ''a'' ''b'' ''p1'' True (start 0)))"
    using demo_run [of "''a''" "''b''" True] by auto
  have 2: "transferPlaylist demo_source (demo_target\<lparr>addTracks := addTracks demo_target_failing\<rparr>)
       ''a'' ''b'' ''p1'' True (start 0)
     = (Inr (projr (fst (transferPlaylist demo_source demo_target_failing ''a'' ''b'' ''p1'' True (start 0)))),
        snd (transferPlaylist demo_source demo_target_failing ''a'' ''b'' ''p1'' True (start 0)))"
    by (simp add: transferPlaylist_def demo_source_def demo_target_def demo_target_failing_def
        Let_def invoke_def gym_def road_def song1_def song2_def song3_def start_def)
  have 3: "demo_target\<lparr>addTracks := addTracks demo_target_failing\<rparr> = demo_target_failing"
    by (simp add: demo_target_failing_def demo_target_def)
  have 4: "snd (last (calls (snd (transferPlaylist demo_source demo_target ''a'' ''b'' ''p1'' True (start 0)))))
      = Counts \<lparr>added = 2, failed = 0\<rparr>"
    by (simp add: transferPlaylist_def demo_source_def demo_target_def
        Let_def invoke_def gym_def road_def song1_def song2_def song3_def start_def notify_def)
  have 5: "snd (last (calls (snd (transferPlaylist demo_source demo_target_failing ''a'' ''b'' ''p1'' True (start 0)))))
      = Counts \<lparr>added = 0, failed = 2\<rparr>"
    by (simp add: transferPlaylist_def demo_source_def demo_target_def demo_target_failing_def
        Let_def invoke_def gym_def road_def song1_def song2_def song3_def start_def notify_def)
  from result_independent_of_add_counts [OF 1 2] 1 2 3 4 5 show ?thesis
    by metis
qed


text \<open>The first call of the matching loop is the search for the first track.\<close>

lemma matchTracks_first_call:
  "\<exists>cs. calls (snd (matchTracks tp tok op n i (t # rest) m u s))
     = calls s @ (SearchTrack Target tok t,
                  case fst (searchTrack tp tok t (world s)) of
                    Inl e \<Rightarrow> Rejected e | Inr v \<Rightarrow> Found v) # cs"
proof -
  obtain r w' where sr: "searchTrack tp tok t (world s) = (r, w')"
    by (cases "searchTrack tp tok t (world s)")
  let ?s2 = "(notify op (matching_event n i t) s)\<lparr>world := w',
      calls := calls s @ [(SearchTrack Target tok t, case r of Inl e \<Rightarrow> Rejected e | Inr v \<Rightarrow> Found v)]\<rparr>"
  show ?thesis
  proof (cases r)
    case (Inl e)
    with sr show ?thesis by (simp add: invoke_eq Let_def)
  next
    case (Inr found)
    show ?thesis
    proof (cases found)
      case None
      from matchTracks_calls [of tp tok op n "i + 1" rest m "u @ [t]" ?s2] sr Inr None
      show ?thesis by (auto simp: invoke_eq Let_def)
    next
      case (Some x)
      from matchTracks_calls [of tp tok op n "i + 1" rest "m @ [x]" u ?s2] sr Inr Some
      show ?thesis by (auto simp: invoke_eq Let_def)
    qed
  qed
qed

text \<open>
  Once the source tracks are read, the target's \<open>createPlaylist\<close> is called on the world
  that the read left; \<open>s8\<close> is the state after that call. When it rejects, the run ends
  there with its error; otherwise the run goes on from \<open>s8\<close>.
\<close>

lemma transferPlaylist_after_read:
  assumes "getPlaylists src st (world s0) = (Inr pls, w1)"
    and "find (\<lambda>p. playlist_id p = pid) pls = Some p"
    and "getPlaylistTracks src st pid w1 = (Inr ts, w2)"
    and "createPlaylist tgt tt (playlist_name p)
           (Some (or_else (description p) (''Transferred from '' @ provider_name src))) w2 = (c, w3)"
  obtains s8 where
    "world s8 = w3"
    "calls s8 = calls s0 @ [(GetPlaylists Source st, Playlists pls),
        (GetPlaylistTracks Source st pid, Tracks ts),
        (CreatePlaylist Target tt (playlist_name p)
           (Some (or_else (description p) (''Transferred from '' @ provider_name src))),
         case c of Inl e \<Rightarrow> Rejected e | Inr v \<Rightarrow> PlaylistId v)]"
    "\<And>e. c = Inl e \<Longrightarrow> transferPlaylist src tgt st tt pid op s0 = (Inl e, s8)"
    "\<And>tid. c = Inr tid \<Longrightarrow> transferPlaylist src tgt st tt pid op s0 =
        (case matchTracks tgt tt op (length ts) 0 ts [] [] s8 of
          (Inl e, s9) \<Rightarrow> (Inl e, s9)
        | (Inr (m, u), s9) \<Rightarrow>
        (let s10 = notify op (transferring_event (length m)) s9
         in case invoke (AddTracks Target tt tid m) Counts (addTracks tgt tt tid m) s10 of
           (Inl e, s11) \<Rightarrow> (Inl e, s11)
         | (Inr result, s11) \<Rightarrow>
         (let s12 = notify op (complete_event (length m) (length ts) result (length u)) s11
          in (Inr \<lparr>sourcePlaylist = p\<lparr>tracks := ts, trackCount := length ts\<rparr>, targetPlaylistId = tid,
                   matched = m, unmatched = u, totalTracks = length ts\<rparr>, s12))))"
proof -
  let ?desc = "or_else (description p) (''Transferred from '' @ provider_name src)"
  define s3 where "s3 = (notify op fetching_event s0)
     \<lparr>world := w1, calls := calls s0 @ [(GetPlaylists Source st, Playlists pls)], listing := pls\<rparr>"
  define s6 where "s6 = (notify op (reading_event p) s3)
     \<lparr>world := w2, calls := calls s3 @ [(GetPlaylistTracks Source st pid, Tracks ts)],
      listing := update_first (\<lambda>p. playlist_id p = pid)
                    (\<lambda>p. p\<lparr>tracks := ts, trackCount := length ts\<rparr>) pls\<rparr>"
  define s8 where "s8 = (notify op
       (creating_event (p\<lparr>tracks := ts, trackCount := length ts\<rparr>) (provider_name tgt) (length ts)) s6)
     \<lparr>world := w3,
      calls := calls s6 @ [(CreatePlaylist Target tt (playlist_name p) (Some ?desc),
                            case c of Inl e \<Rightarrow> Rejected e | Inr v \<Rightarrow> PlaylistId v)]\<rparr>"
  show thesis
  proof (rule that [of s8])
    show "world s8 = w3" by (simp add: s8_def)
    show "calls s8 = calls s0 @ [(GetPlaylists Source st, Playlists pls),
        (GetPlaylistTracks Source st pid, Tracks ts),
        (CreatePlaylist Target tt (playlist_name p) (Some ?desc),
         case c of Inl e \<Rightarrow> Rejected e | Inr v \<Rightarrow> PlaylistId v)]"
      by (simp add: s8_def s6_def s3_def)
    show "transferPlaylist src tgt st tt pid op s0 = (Inl e, s8)" if "c = Inl e" for e
      using assms that by (simp add: transferPlaylist_def Let_def invoke_eq s8_def s6_def s3_def)
    show "transferPlaylist src tgt st tt pid op s0 =
        (case matchTracks tgt tt op (length ts) 0 ts [] [] s8 of
          (Inl e, s9) \<Rightarrow> (Inl e, s9)
        | (Inr (m, u), s9) \<Rightarrow>
        (let s10 = notify op (transferring_event (length m)) s9
         in case invoke (AddTracks Target tt tid m) Counts (addTracks tgt tt tid m) s10 of
           (Inl e, s11) \<Rightarrow> (Inl e, s11)
         | (Inr result, s11) \<Rightarrow>
         (let s12 = notify op (complete_event (length m) (length ts) result (length u)) s11
          in (Inr \<lparr>sourcePlaylist = p\<lparr>tracks := ts, trackCount := length ts\<rparr>, targetPlaylistId = tid,
                   matched = m, unmatched = u, totalTracks = length ts\<rparr>, s12))))"
      if "c = Inr tid" for tid
      using assms that by (simp add: transferPlaylist_def Let_def invoke_eq s8_def s6_def s3_def)
  qed
qed

text \<open>
  C9. When the run reaches the creating phase (the listing was fetched, it has a
  playlist with the requested id, and its tracks were read), the engine calls the
  target's \<open>createPlaylist\<close>, on the world that the read left, with the name of the
  source playlist and with its description when that is a non-empty string, otherwise
  with \<open>Transferred from\<close> followed by the \<open>name\<close> of the source provider. With \<open>c\<close> what
  this call returns and \<open>w3\<close> the world it leaves:
  \<^item> the call and \<open>c\<close> are the third entry of the trace of provider calls;
  \<^item> when \<open>c\<close> is an error, the run fails with that error, in the world \<open>w3\<close>, after these
    three calls;
  \<^item> when \<open>c\<close> is a playlist id, a result that the run returns carries that id, and the
    next provider call (the search for the first source track, or \<open>addTracks\<close> when there
    is no source track) is made on the world \<open>w3\<close>.
\<close>

theorem createPlaylist_name_and_description:
  assumes "getPlaylists src st w = (Inr pls, w1)"
    and "find (\<lambda>p. playlist_id p = pid) pls = Some p"
    and "getPlaylistTracks src st pid w1 = (Inr ts, w2)"
    and "createPlaylist tgt tt (playlist_name p)
           (Some (case description p of
                    None \<Rightarrow> ''Transferred from '' @ provider_name src
                  | Some d \<Rightarrow> if d = [] then ''Transferred from '' @ provider_name src else d)) w2
         = (c, w3)"
    and "transferPlaylist src tgt st tt pid op (start w) = (res, s')"
  shows "calls s' ! 2
           = (CreatePlaylist Target tt (playlist_name p)
                (Some (case description p of
                         None \<Rightarrow> ''Transferred from '' @ provider_name src
                       | Some d \<Rightarrow> if d = [] then ''Transferred from '' @ provider_name src else d)),
              case c of Inl e \<Rightarrow> Rejected e | Inr tid \<Rightarrow> PlaylistId tid)
       \<and> (\<forall>e. c = Inl e \<longrightarrow> res = Inl e \<and> world s' = w3 \<and> length (calls s') = 3)
       \<and> (\<forall>tid. c = Inr tid \<longrightarrow>
             (\<forall>r. res = Inr r \<longrightarrow> targetPlaylistId r = tid)
           \<and> (ts = [] \<longrightarrow>
                calls s' ! 3 = (AddTracks Target tt tid [],
                                case fst (addTracks tgt tt tid [] w3) of
                                  Inl e \<Rightarrow> Rejected e | Inr v \<Rightarrow> Counts v))
           \<and> (ts \<noteq> [] \<longrightarrow>
                calls s' ! 3 = (SearchTrack Target tt (hd ts),
                                case fst (searchTrack tgt tt (hd ts) w3) of
                                  Inl e \<Rightarrow> Rejected e | Inr v \<Rightarrow> Found v)))"
proof -
  let ?desc = "or_else (description p) (''Transferred from '' @ provider_name src)"
  have desc: "(case description p of
                None \<Rightarrow> ''Transferred from '' @ provider_name src
              | Some d \<Rightarrow> if d = [] then ''Transferred from '' @ provider_name src else d) = ?desc"
    by (simp only: or_else_def)
  from assms(1) have gp: "getPlaylists src st (world (start w)) = (Inr pls, w1)"
    by (simp add: start_def)
  from assms(4) have cp: "createPlaylist tgt tt (playlist_name p) (Some ?desc) w2 = (c, w3)"
    by (simp only: desc)
  from transferPlaylist_after_read [OF gp assms(2,3) cp, of op] obtain s8 where
    w8: "world s8 = w3"
    and c8: "calls s8 = calls (start w) @ [(GetPlaylists Source st, Playlists pls),
        (GetPlaylistTracks Source st pid, Tracks ts),
        (CreatePlaylist Target tt (playlist_name p) (Some ?desc),
         case c of Inl e \<Rightarrow> Rejected e | Inr v \<Rightarrow> PlaylistId v)]"
    and fail: "\<And>e. c = Inl e \<Longrightarrow> transferPlaylist src tgt st tt pid op (start w) = (Inl e, s8)"
    and go: "\<And>tid. c = Inr tid \<Longrightarrow> transferPlaylist src tgt st tt pid op (start w) =
        (case matchTracks tgt tt op (length ts) 0 ts [] [] s8 of
          (Inl e, s9) \<Rightarrow> (Inl e, s9)
        | (Inr (m, u), s9) \<Rightarrow>
        (let s10 = notify op (transferring_event (length m)) s9
         in case invoke (AddTracks Target tt tid m) Counts (addTracks tgt tt tid m) s10 of
           (Inl e, s11) \<Rightarrow> (Inl e, s11)
         | (Inr result, s11) \<Rightarrow>
         (let s12 = notify op (complete_event (length m) (length ts) result (length u)) s11
          in (Inr \<lparr>sourcePlaylist = p\<lparr>tracks := ts, trackCount := length ts\<rparr>, targetPlaylistId = tid,
                   matched = m, unmatched = u, totalTracks = length ts\<rparr>, s12))))"
    by blast
  have c8': "calls s8 = [(GetPlaylists Source st, Playlists pls),
        (GetPlaylistTracks Source st pid, Tracks ts),
        (CreatePlaylist Target tt (playlist_name p) (Some ?desc),
         case c of Inl e \<Rightarrow> Rejected e | Inr v \<Rightarrow> PlaylistId v)]"
    using c8 by (simp add: start_def)
  show ?thesis
  proof (cases c)
    case (Inl e)
    from fail [OF Inl] assms(5) have "res = Inl e" "s' = s8" by simp_all
    with Inl w8 c8' show ?thesis by (simp add: desc)
  next
    case (Inr tid)
    obtain mr s9 where mt: "matchTracks tgt tt op (length ts) 0 ts [] [] s8 = (mr, s9)"
      by (cases "matchTracks tgt tt op (length ts) 0 ts [] [] s8")
    from matchTracks_calls [of tgt tt op "length ts" 0 ts "[]" "[]" s8] mt
    obtain cs where c9: "calls s9 = calls s8 @ cs" by auto
    have run: "(res, s') =
        (case (mr, s9) of
          (Inl e, s9) \<Rightarrow> (Inl e, s9)
        | (Inr (m, u), s9) \<Rightarrow>
        (let s10 = notify op (transferring_event (length m)) s9
         in case invoke (AddTracks Target tt tid m) Counts (addTracks tgt tt tid m) s10 of
           (Inl e, s11) \<Rightarrow> (Inl e, s11)
         | (Inr result, s11) \<Rightarrow>
         (let s12 = notify op (complete_event (length m) (length ts) result (length u)) s11
          in (Inr \<lparr>sourcePlaylist = p\<lparr>tracks := ts, trackCount := length ts\<rparr>, targetPlaylistId = tid,
                   matched = m, unmatched = u, totalTracks = length ts\<rparr>, s12))))"
      using go [OF Inr] assms(5) mt by simp
    have ext: "\<exists>cs'. calls s' = calls s9 @ cs'"
      and tid: "\<forall>r. res = Inr r \<longrightarrow> targetPlaylistId r = tid"
    proof -
      show "\<exists>cs'. calls s' = calls s9 @ cs'"
      proof (cases mr)
        case (Inl e)
        with run show ?thesis by simp
      next
        case (Inr mu)
        obtain m u where mu: "mu = (m, u)" by (cases mu)
        obtain ar w4 where ar: "addTracks tgt tt tid m (world s9) = (ar, w4)"
          by (cases "addTracks tgt tt tid m (world s9)")
        from run Inr mu ar show ?thesis
          by (cases ar) (simp_all add: Let_def invoke_eq)
      qed
      show "\<forall>r. res = Inr r \<longrightarrow> targetPlaylistId r = tid"
      proof (cases mr)
        case (Inl e)
        with run show ?thesis by simp
      next
        case (Inr mu)
        obtain m u where mu: "mu = (m, u)" by (cases mu)
        obtain ar w4 where ar: "addTracks tgt tt tid m (world s9) = (ar, w4)"
          by (cases "addTracks tgt tt tid m (world s9)")
        from run Inr mu ar show ?thesis
          by (cases ar) (auto simp: Let_def invoke_eq)
      qed
    qed
    from ext c9 c8' have second: "calls s' ! 2
           = (CreatePlaylist Target tt (playlist_name p) (Some ?desc),
              case c of Inl e \<Rightarrow> Rejected e | Inr v \<Rightarrow> PlaylistId v)"
      by auto
    have none: "calls s' ! 3 = (AddTracks Target tt tid [],
                                case fst (addTracks tgt tt tid [] w3) of
                                  Inl e \<Rightarrow> Rejected e | Inr v \<Rightarrow> Counts v)"
      if "ts = []"
    proof -
      from that mt have mr: "mr = Inr ([], [])" "s9 = s8" by simp_all
      obtain ar w4 where ar: "addTracks tgt tt tid [] w3 = (ar, w4)"
        by (cases "addTracks tgt tt tid [] w3")
      from run mr ar w8 c8' show ?thesis
        by (cases ar) (simp_all add: Let_def invoke_eq)
    qed
    have some: "calls s' ! 3 = (SearchTrack Target tt (hd ts),
                                case fst (searchTrack tgt tt (hd ts) w3) of
                                  Inl e \<Rightarrow> Rejected e | Inr v \<Rightarrow> Found v)"
      if "ts \<noteq> []"
    proof -
      from that obtain t rest where ts: "ts = t # rest" by (cases ts) auto
      from matchTracks_first_call [of tgt tt op "length ts" 0 t rest "[]" "[]" s8] mt ts w8
      obtain cs1 where "calls s9 = calls s8 @ (SearchTrack Target tt t,
                  case fst (searchTrack tgt tt t w3) of
                    Inl e \<Rightarrow> Rejected e | Inr v \<Rightarrow> Found v) # cs1"
        by auto
      with ext c8' ts show ?thesis by auto
    qed
    from second tid none some Inr show ?thesis
      by (simp add: desc)
  qed
qed

text \<open>
  The playlist \<open>Road\<close> has the empty description and \<open>Gym\<close> the description \<open>Loud\<close>. The
  recording target creates exactly the playlist asked for; when the target refuses,
  the run fails with its error.
\<close>

theorem createPlaylist_name_and_description_witness:
  "getPlaylists demo_source ''a'' [] = (Inr [gym, road], [])
   \<and> find (\<lambda>p. playlist_id p = ''p1'') [gym, road] = Some road
   \<and> getPlaylistTracks demo_source ''a'' ''p1'' [] = (Inr [song1, song2, song3], [])
   \<and> createPlaylist recording_target ''b'' ''Road'' (Some ''Transferred from Spotify'') []
       = (Inr ''0'', [(''Road'', Some ''Transferred from Spotify'')])
   \<and> fst (calls (snd (transferPlaylist demo_source recording_target ''a'' ''b'' ''p1'' True (start []))) ! 2)
       = CreatePlaylist Target ''b'' ''Road'' (Some ''Transferred from Spotify'')
   \<and> map_sum id targetPlaylistId
         (fst (transferPlaylist demo_source recording_target ''a'' ''b'' ''p1'' True (start [])))
       = Inr ''0''
   \<and> world (snd (transferPlaylist demo_source recording_target ''a'' ''b'' ''p1'' True (start [])))
       = [(''Road'', Some ''Transferred from Spotify'')]
   \<and> world (snd (transferPlaylist demo_source recording_target ''a'' ''b'' ''p2'' True (start [])))
       = [(''Gym'', Some ''Loud'')]
   \<and> createPlaylist refusing_target ''b'' ''Road'' (Some ''Transferred from Spotify'') []
       = (Inl (Error ''quota''), [(''Road'', Some ''Transferred from Spotify'')])
   \<and> fst (transferPlaylist demo_source refusing_target ''a'' ''b'' ''p1'' True (start []))
       = Inl (Error ''quota'')
   \<and> length (calls (snd (transferPlaylist demo_source refusing_target ''a'' ''b'' ''p1'' True (start []))))
       = 3"
proof -
  let ?run = "transferPlaylist demo_source recording_target ''a'' ''b'' ''p1'' True (start [])"
  let ?bad = "transferPlaylist demo_source refusing_target ''a'' ''b'' ''p1'' True (start [])"
  have 1: "getPlaylists demo_source ''a'' [] = (Inr [gym, road], [])"
    by (simp add: demo_source_def)
  have 2: "find (\<lambda>p. playlist_id p = ''p1'') [gym, road] = Some road"
    by (simp add: gym_def road_def)
  have 3: "getPlaylistTracks demo_source ''a'' ''p1'' [] = (Inr [song1, song2, song3], [])"
    by (simp add: demo_source_def)
  have d: "(case description road of
              None \<Rightarrow> ''Transferred from '' @ provider_name demo_source
            | Some d \<Rightarrow> if d = [] then ''Transferred from '' @ provider_name demo_source else d)
           = ''Transferred from Spotify''"
    "playlist_name road = ''Road''"
    by (simp_all add: road_def demo_source_def)
  have 4: "createPlaylist recording_target ''b'' ''Road'' (Some ''Transferred from Spotify'') []
       = (Inr ''0'', [(''Road'', Some ''Transferred from Spotify'')])"
    by (simp add: recording_target_def show_nat.simps digit_def)
  have 5: "createPlaylist refusing_target ''b'' ''Road'' (Some ''Transferred from Spotify'') []
       = (Inl (Error ''quota''), [(''Road'', Some ''Transferred from Spotify'')])"
    by (simp add: refusing_target_def recording_target_def)
  have ok: "\<exists>r. fst ?run = Inr r"
    by (simp add: transferPlaylist_def demo_source_def recording_target_def Let_def invoke_def
        gym_def road_def song1_def song2_def song3_def start_def)
  have gymw: "world (snd (transferPlaylist demo_source recording_target ''a'' ''b'' ''p2'' True (start [])))
       = [(''Gym'', Some ''Loud'')]"
    by (simp add: transferPlaylist_def demo_source_def recording_target_def Let_def invoke_def
        gym_def road_def song1_def song2_def song3_def start_def or_else_def)
  have roadw: "world (snd ?run) = [(''Road'', Some ''Transferred from Spotify'')]"
    by (simp add: transferPlaylist_def demo_source_def recording_target_def Let_def invoke_def
        gym_def road_def song1_def song2_def song3_def start_def or_else_def)
  note A = createPlaylist_name_and_description
      [OF 1 2 3, of recording_target "''b''" "Inr ''0''" "[(''Road'', Some ''Transferred from Spotify'')]"
        True "fst ?run" "snd ?run", unfolded d, OF 4, simplified]
  note B = createPlaylist_name_and_description
      [OF 1 2 3, of refusing_target "''b''" "Inl (Error ''quota'')"
        "[(''Road'', Some ''Transferred from Spotify'')]" True "fst ?bad" "snd ?bad",
        unfolded d, OF 5, simplified]
  from A B ok 1 2 3 4 5 gymw roadw show ?thesis
    by auto
qed




section \<open>Properties of the adapters\<close>

subsection \<open>The counts of addTracks\<close>

lemma Spotify_resolve_length:
  "Spotify_resolve srv token ts n = (Inr uris, n') \<Longrightarrow> length uris = length ts"
proof (induction ts arbitrary: n uris n')
  case Nil
  then show ?case by simp
next
  case (Cons t ts)
  then show ?case
    by (auto split: prod.splits sum.splits)
qed

lemma Spotify_addBatches_sum:
  "Spotify_addBatches srv token pid v i a f n = (Inr c, n') \<Longrightarrow>
   added c + failed c = a + f + (length v - i)"
proof (induction srv token pid v i a f n rule: Spotify_addBatches.induct)
  case (1 srv token pid v i a f n)
  show ?case
  proof (cases "i < length v")
    case False
    with "1.prems" show ?thesis
      by (auto simp add: Spotify_addBatches.simps)
  next
    case True
    obtain r n1 where f: "fetch srv (AddItems token pid (take 100 (drop i v))) n = (r, n1)"
      by (cases "fetch srv (AddItems token pid (take 100 (drop i v))) n")
    show ?thesis
    proof (cases r)
      case (Failed e)
      with True f "1.prems" show ?thesis
        by (simp add: Spotify_addBatches.simps)
    next
      case (Response ok b)
      show ?thesis
      proof (cases ok)
        case True
        with \<open>i < length v\<close> f Response "1.prems"
        have "Spotify_addBatches srv token pid v (i + 100) (a + length (take 100 (drop i v))) f n1 = (Inr c, n')"
          by (simp add: Spotify_addBatches.simps [of srv token pid v i])
        from "1.IH"(1) [OF \<open>i < length v\<close> refl f [symmetric] Response True this] \<open>i < length v\<close>
        show ?thesis by (simp add: min_def split: if_splits)
      next
        case False
        with \<open>i < length v\<close> f Response "1.prems"
        have "Spotify_addBatches srv token pid v (i + 100) a (f + length (take 100 (drop i v))) n1 = (Inr c, n')"
          by (simp add: Spotify_addBatches.simps [of srv token pid v i])
        from "1.IH"(2) [OF \<open>i < length v\<close> refl f [symmetric] Response False this] \<open>i < length v\<close>
        show ?thesis by (simp add: min_def split: if_splits)
      qed
    qed
  qed
qed

lemma Spotify_addTracks_sum:
  "Spotify_addTracks srv token pid ts n = (Inr c, n') \<Longrightarrow> added c + failed c = length ts"
proof -
  assume a: "Spotify_addTracks srv token pid ts n = (Inr c, n')"
  then obtain uris n1 where r: "Spotify_resolve srv token ts n = (Inr uris, n1)"
    and b: "Spotify_addBatches srv token pid (map the (filter (\<lambda>u. u \<noteq> None) uris)) 0 0
              (length uris - length (map the (filter (\<lambda>u. u \<noteq> None) uris))) n1 = (Inr c, n')"
    by (auto simp: Spotify_addTracks_def Let_def split: prod.splits sum.splits)
  have "length (filter (\<lambda>u. u \<noteq> None) uris) \<le> length uris" by simp
  with Spotify_addBatches_sum [OF b] Spotify_resolve_length [OF r] show ?thesis by simp
qed

lemma YouTube_addLoop_sum:
  "YouTube_addLoop srv token pid ts a f n = (Inr c, n') \<Longrightarrow>
   added c + failed c = a + f + length ts"
proof (induction ts arbitrary: a f n)
  case Nil
  then show ?case by auto
next
  case (Cons t ts)
  then show ?case
    by (fastforce split: prod.splits sum.splits option.splits response.splits if_splits)
qed

lemma KKBox_resolve_sum:
  "KKBox_resolve srv token ts rs f n = (Inr (rs', f'), n') \<Longrightarrow>
   length rs' + f' = length rs + f + length ts"
proof (induction ts arbitrary: rs f n)
  case Nil
  then show ?case by auto
next
  case (Cons t ts)
  then show ?case
    by (fastforce split: prod.splits sum.splits option.splits)
qed

lemma KKBox_addTracks_sum:
  "KKBox_addTracks srv token pid ts n = (Inr c, n') \<Longrightarrow> added c + failed c = length ts"
  by (auto simp: KKBox_addTracks_def split: prod.splits sum.splits response.splits if_splits
      dest!: KKBox_resolve_sum)

lemma Apple_resolve_sum:
  "Apple_resolve signing srv token ts rs f n = (Inr (rs', f'), n') \<Longrightarrow>
   length rs' + f' = length rs + f + length ts"
proof (induction ts arbitrary: rs f n)
  case Nil
  then show ?case by auto
next
  case (Cons t ts)
  then show ?case
    by (fastforce split: prod.splits sum.splits option.splits)
qed

lemma Apple_addTracks_sum:
  "Apple_addTracks signing srv token pid ts n = (Inr c, n') \<Longrightarrow> added c + failed c = length ts"
  by (auto simp: Apple_addTracks_def split: prod.splits sum.splits response.splits if_splits
      dest!: Apple_resolve_sum)


text \<open>
  C5. For each of the four adapters, when \<open>addTracks\<close> returns (no awaited fetch or
  body rejected), the counts it returns add up to the number of input tracks:
  \<open>added + failed = tracks.length\<close>.
\<close>

theorem addTracks_counts_add_up:
  "(Spotify_addTracks srv1 token playlistId ts n1 = (Inr c1, n1') \<longrightarrow> added c1 + failed c1 = length ts)
 \<and> (YouTube_addTracks srv2 token playlistId ts n2 = (Inr c2, n2') \<longrightarrow> added c2 + failed c2 = length ts)
 \<and> (KKBox_addTracks srv3 token playlistId ts n3 = (Inr c3, n3') \<longrightarrow> added c3 + failed c3 = length ts)
 \<and> (Apple_addTracks signing srv4 token playlistId ts n4 = (Inr c4, n4') \<longrightarrow> added c4 + failed c4 = length ts)"
proof (intro conjI impI)
  assume "YouTube_addTracks srv2 token playlistId ts n2 = (Inr c2, n2')"
  then show "added c2 + failed c2 = length ts"
    using YouTube_addLoop_sum [of srv2 token playlistId ts 0 0 n2 c2 n2']
    by (simp add: YouTube_addTracks_def)
qed (fact Spotify_addTracks_sum KKBox_addTracks_sum Apple_addTracks_sum)+

text \<open>The four adapters on the example platform: one track is added, one is not found.\<close>

lemma pair_fst: "fst x = a \<Longrightarrow> x = (a, snd x)"
  by (cases x) simp

lemma fetch_eq:
  "fetch srv rq n
     = (fst (srv rq (platform n)),
        \<lparr>sent = sent n @ [rq], platform = snd (srv rq (platform n))\<rparr>)"
  by (simp add: fetch_def split: prod.splits)

lemmas demo_simps =
  fetch_eq demo_server_def known_queries_def truthy_def song1_def song2_def net0_def Let_def
  or_else_def type_error_def

lemma demo_Spotify_addTracks:
  "fst (Spotify_addTracks (demo_server sp_by_isrc sp_by_text known_queries) ''t'' ''pl''
          [song1, song2] net0) = Inr \<lparr>added = 1, failed = 1\<rparr>"
  by (simp add: Spotify_addTracks_def Spotify_searchTrack_def Spotify_textSearch_def
      Spotify_read_def spotify_track_def sp_by_isrc_def sp_by_text_def
      Spotify_addBatches.simps demo_simps)

lemma demo_YouTube_addTracks:
  "fst (YouTube_addTracks (demo_server yt_by_isrc yt_by_text known_queries) ''t'' ''pl''
          [song1, song2] net0) = Inr \<lparr>added = 1, failed = 1\<rparr>"
  by (simp add: YouTube_addTracks_def YouTube_searchTrack_def YouTube_read_def youtube_track_def
      yt_by_isrc_def yt_by_text_def demo_simps)

lemma demo_KKBox_addTracks:
  "fst (KKBox_addTracks (demo_server kk_by_isrc kk_by_text known_queries) ''t'' ''pl''
          [song1, song2] net0) = Inr \<lparr>added = 1, failed = 1\<rparr>"
  by (simp add: KKBox_addTracks_def KKBox_searchTrack_def KKBox_read_def kkbox_track_def
      trim_def is_space_def demo_simps)

lemma demo_Apple_addTracks:
  "fst (Apple_addTracks None (demo_server ap_by_isrc ap_by_text known_queries) ''t'' ''pl''
          [song1, song2] net0) = Inr \<lparr>added = 1, failed = 1\<rparr>"
  by (simp add: Apple_addTracks_def Apple_searchTrack_def Apple_textSearch_def Apple_read_def
      apple_track_def getHeaders_def ap_by_isrc_def ap_by_text_def demo_simps)

text \<open>The example: two tracks, one added and one failed, for each adapter.\<close>

theorem addTracks_counts_add_up_witness:
  "fst (Spotify_addTracks (demo_server sp_by_isrc sp_by_text known_queries) ''t'' ''pl''
          [song1, song2] net0) = Inr \<lparr>added = 1, failed = 1\<rparr>
 \<and> fst (YouTube_addTracks (demo_server yt_by_isrc yt_by_text known_queries) ''t'' ''pl''
          [song1, song2] net0) = Inr \<lparr>added = 1, failed = 1\<rparr>
 \<and> fst (KKBox_addTracks (demo_server kk_by_isrc kk_by_text known_queries) ''t'' ''pl''
          [song1, song2] net0) = Inr \<lparr>added = 1, failed = 1\<rparr>
 \<and> fst (Apple_addTracks None (demo_server ap_by_isrc ap_by_text known_queries) ''t'' ''pl''
          [song1, song2] net0) = Inr \<lparr>added = 1, failed = 1\<rparr>
 \<and> added \<lparr>added = 1, failed = 1\<rparr> + failed \<lparr>added = 1, failed = 1\<rparr> = length [song1, song2]"
  using addTracks_counts_add_up [of
      "demo_server sp_by_isrc sp_by_text known_queries" "''t''" "''pl''" "[song1, song2]" net0
      "\<lparr>added = 1, failed = 1\<rparr>" _
      "demo_server yt_by_isrc yt_by_text known_queries" net0 "\<lparr>added = 1, failed = 1\<rparr>" _
      "demo_server kk_by_isrc kk_by_text known_queries" net0 "\<lparr>added = 1, failed = 1\<rparr>" _
      None "demo_server ap_by_isrc ap_by_text known_queries" net0 "\<lparr>added = 1, failed = 1\<rparr>" _]
    pair_fst [OF demo_Spotify_addTracks] pair_fst [OF demo_YouTube_addTracks]
    pair_fst [OF demo_KKBox_addTracks] pair_fst [OF demo_Apple_addTracks]
    demo_Spotify_addTracks demo_YouTube_addTracks demo_KKBox_addTracks demo_Apple_addTracks
  by simp

text \<open>
  C8. For each of the four adapters, \<open>addTracks\<close> with the empty track list returns
  \<open>{added: 0, failed: 0}\<close> and leaves the transport as it was: no request is sent, so
  no add request reaches the platform.
\<close>

theorem addTracks_of_no_tracks:
  "Spotify_addTracks srv1 token playlistId [] n1 = (Inr \<lparr>added = 0, failed = 0\<rparr>, n1)
 \<and> YouTube_addTracks srv2 token playlistId [] n2 = (Inr \<lparr>added = 0, failed = 0\<rparr>, n2)
 \<and> KKBox_addTracks srv3 token playlistId [] n3 = (Inr \<lparr>added = 0, failed = 0\<rparr>, n3)
 \<and> Apple_addTracks signing srv4 token playlistId [] n4 = (Inr \<lparr>added = 0, failed = 0\<rparr>, n4)"
  by (simp add: Spotify_addTracks_def Spotify_addBatches.simps YouTube_addTracks_def
      KKBox_addTracks_def Apple_addTracks_def)

subsection \<open>The order of the lookups in searchTrack\<close>

text \<open>
  C4, as the code has it. The Spotify and Apple Music adapters look the track up by its
  ISRC first when the track has a non-empty one: when that lookup has a well-formed
  first hit (for Apple Music, when the developer token can be signed and the response
  has a success status), \<open>searchTrack\<close> returns that hit and sends no text search,
  whatever the text search would have found. The KKBox and YouTube Music adapters send
  no lookup by ISRC, whatever the track and the platform: the one request of their
  \<open>searchTrack\<close> is the free-text search, and when that has a well-formed first hit
  (for KKBox, in a response with a success status) it is the track returned.
\<close>

theorem isrc_lookup_comes_first:
  "(truthy (isrc track)
      \<and> srv1 (IsrcSearch token (the (isrc track))) (platform n1) = (Response ok (Items (hit1 # more1)), p1)
      \<and> spotify_track hit1 = Inr found1
    \<longrightarrow> Spotify_searchTrack srv1 token track n1
        = (Inr (Some found1),
           \<lparr>sent = sent n1 @ [IsrcSearch token (the (isrc track))], platform = p1\<rparr>))
 \<and> (truthy (isrc track)
      \<and> srv2 (IsrcSearch token (the (isrc track))) (platform n2) = (Response True (Items (hit2 # more2)), p2)
      \<and> apple_track hit2 = Inr found2
    \<longrightarrow> Apple_searchTrack None srv2 token track n2
        = (Inr (Some found2),
           \<lparr>sent = sent n2 @ [IsrcSearch token (the (isrc track))], platform = p2\<rparr>))
 \<and> sent (snd (KKBox_searchTrack srv3 token track n3))
      = sent n3 @ [TextSearch token (trim (track_name track @ '' '' @ artist track))]
 \<and> (srv3 (TextSearch token (trim (track_name track @ '' '' @ artist track))) (platform n3)
        = (Response True (Items (hit3 # more3)), p3)
      \<and> kkbox_track hit3 = Inr found3
    \<longrightarrow> KKBox_searchTrack srv3 token track n3
        = (Inr (Some found3),
           \<lparr>sent = sent n3 @ [TextSearch token (trim (track_name track @ '' '' @ artist track))],
            platform = p3\<rparr>))
 \<and> sent (snd (YouTube_searchTrack srv4 token track n4))
      = sent n4 @ [TextSearch token (if artist track \<noteq> [] then artist track @ '' '' @ track_name track
                                    else track_name track)]
 \<and> (srv4 (TextSearch token (if artist track \<noteq> [] then artist track @ '' '' @ track_name track
                               else track_name track)) (platform n4)
        = (Response ok4 (Items (hit4 # more4)), p4)
      \<and> youtube_track track hit4 = Inr found4
    \<longrightarrow> YouTube_searchTrack srv4 token track n4
        = (Inr (Some found4),
           \<lparr>sent = sent n4 @ [TextSearch token (if artist track \<noteq> [] then artist track @ '' '' @ track_name track
                               else track_name track)],
            platform = p4\<rparr>))"
  by (simp add: Spotify_searchTrack_def Apple_searchTrack_def KKBox_searchTrack_def
      YouTube_searchTrack_def Spotify_read_def Apple_read_def KKBox_read_def YouTube_read_def
      getHeaders_def fetch_eq Let_def)

text \<open>
  The example platform has the hit \<open>a1\<close> for the ISRC of \<open>song1\<close> and the hit \<open>b1\<close> for
  its text query.
\<close>

theorem isrc_lookup_comes_first_witness:
  "truthy (isrc song1)
 \<and> demo_server sp_by_isrc sp_by_text known_queries (IsrcSearch ''t'' (the (isrc song1))) (platform net0)
     = (Response True (Items [Some sp_by_isrc]), ())
 \<and> map_option track_id
       (projr (fst (Spotify_searchTrack (demo_server sp_by_isrc sp_by_text known_queries) ''t'' song1 net0)))
     = Some ''a1''
 \<and> sent (snd (Spotify_searchTrack (demo_server sp_by_isrc sp_by_text known_queries) ''t'' song1 net0))
     = [IsrcSearch ''t'' ''US1'']
 \<and> demo_server ap_by_isrc ap_by_text known_queries (IsrcSearch ''t'' (the (isrc song1))) (platform net0)
     = (Response True (Items [Some ap_by_isrc]), ())
 \<and> map_option track_id
       (projr (fst (Apple_searchTrack None (demo_server ap_by_isrc ap_by_text known_queries) ''t'' song1 net0)))
     = Some ''a1''
 \<and> demo_server kk_by_isrc kk_by_text known_queries
       (TextSearch ''t'' (trim (track_name song1 @ '' '' @ artist song1))) (platform net0)
     = (Response True (Items [Some kk_by_text]), ())
 \<and> map_option track_id
       (projr (fst (KKBox_searchTrack (demo_server kk_by_isrc kk_by_text known_queries) ''t'' song1 net0)))
     = Some ''b1''
 \<and> sent (snd (KKBox_searchTrack (demo_server kk_by_isrc kk_by_text known_queries) ''t'' song1 net0))
     = [TextSearch ''t'' ''Song Ann'']
 \<and> demo_server yt_by_isrc yt_by_text known_queries
       (TextSearch ''t'' (if artist song1 \<noteq> [] then artist song1 @ '' '' @ track_name song1
                         else track_name song1)) (platform net0)
     = (Response True (Items [Some yt_by_text]), ())
 \<and> map_option track_id
       (projr (fst (YouTube_searchTrack (demo_server yt_by_isrc yt_by_text known_queries) ''t'' song1 net0)))
     = Some ''b1''
 \<and> sent (snd (YouTube_searchTrack (demo_server yt_by_isrc yt_by_text known_queries) ''t'' song1 net0))
     = [TextSearch ''t'' ''Ann Song'']"
proof -
  have 0: "truthy (isrc song1)" "the (isrc song1) = ''US1''"
    by (simp_all add: truthy_def song1_def)
  have 1: "demo_server sp_by_isrc sp_by_text known_queries (IsrcSearch ''t'' (the (isrc song1))) (platform net0)
     = (Response True (Items [Some sp_by_isrc]), ())"
    by (simp add: demo_server_def song1_def)
  have 2: "demo_server ap_by_isrc ap_by_text known_queries (IsrcSearch ''t'' (the (isrc song1))) (platform net0)
     = (Response True (Items [Some ap_by_isrc]), ())"
    by (simp add: demo_server_def song1_def)
  have q3: "trim (track_name song1 @ '' '' @ artist song1) = ''Song Ann''"
    by (simp add: song1_def trim_def is_space_def)
  have 3: "demo_server kk_by_isrc kk_by_text known_queries
       (TextSearch ''t'' (trim (track_name song1 @ '' '' @ artist song1))) (platform net0)
     = (Response True (Items [Some kk_by_text]), ())"
    using q3 by (simp add: demo_server_def known_queries_def)
  have q4: "(if artist song1 \<noteq> [] then artist song1 @ '' '' @ track_name song1
             else track_name song1) = ''Ann Song''"
    by (simp add: song1_def)
  have 4: "demo_server yt_by_isrc yt_by_text known_queries
       (TextSearch ''t'' (if artist song1 \<noteq> [] then artist song1 @ '' '' @ track_name song1
                         else track_name song1)) (platform net0)
     = (Response True (Items [Some yt_by_text]), ())"
    using q4 by (simp add: demo_server_def known_queries_def)
  obtain f1 where f1: "spotify_track (Some sp_by_isrc) = Inr f1" "track_id f1 = ''a1''"
    by (simp add: spotify_track_def sp_by_isrc_def)
  obtain f2 where f2: "apple_track (Some ap_by_isrc) = Inr f2" "track_id f2 = ''a1''"
    by (simp add: apple_track_def ap_by_isrc_def)
  obtain f3 where f3: "kkbox_track (Some kk_by_text) = Inr f3" "track_id f3 = ''b1''"
    by (simp add: kkbox_track_def kk_by_text_def)
  obtain f4 where f4: "youtube_track song1 (Some yt_by_text) = Inr f4" "track_id f4 = ''b1''"
    by (simp add: youtube_track_def yt_by_text_def)
  have s0: "sent net0 = []"
    by (simp add: net0_def)
  from isrc_lookup_comes_first [of song1
      "demo_server sp_by_isrc sp_by_text known_queries" "''t''" net0 True "Some sp_by_isrc" "[]" "()" f1
      "demo_server ap_by_isrc ap_by_text known_queries" net0 "Some ap_by_isrc" "[]" "()" f2
      "demo_server kk_by_isrc kk_by_text known_queries" net0 "Some kk_by_text" "[]" "()" f3
      "demo_server yt_by_isrc yt_by_text known_queries" net0 True "Some yt_by_text" "[]" "()" f4]
    0 1 2 3 4 f1 f2 f3 f4 q3 q4 s0
  show ?thesis by simp
qed

text \<open>
  C4 as stated fails for the KKBox adapter: on a platform that has the hit \<open>a1\<close> for the
  ISRC of \<open>song1\<close> and the different hit \<open>b1\<close> for its text query, \<open>searchTrack\<close> returns
  \<open>b1\<close>, whose ISRC is not the one of \<open>song1\<close>, and has sent the text search only.
\<close>

theorem KKBox_searchTrack_skips_isrc:
  "isrc song1 = Some ''US1''
 \<and> fst (demo_server kk_by_isrc kk_by_text known_queries (IsrcSearch ''t'' ''US1'') ())
     = Response True (Items [Some kk_by_isrc])
 \<and> fst (demo_server kk_by_isrc kk_by_text known_queries (TextSearch ''t'' ''Song Ann'') ())
     = Response True (Items [Some kk_by_text])
 \<and> KKBox_searchTrack (demo_server kk_by_isrc kk_by_text known_queries) ''t'' song1 net0
     = (Inr (Some \<lparr>track_id = ''b1'', track_name = ''Song (Live)'', artist = ''Ann'', album = [],
                   durationMs = 0, isrc = Some ''US2''\<rparr>),
        \<lparr>sent = [TextSearch ''t'' ''Song Ann''], platform = ()\<rparr>)
 \<and> kkbox_track (Some kk_by_isrc)
     = Inr \<lparr>track_id = ''a1'', track_name = ''Song'', artist = ''Ann'', album = ''LP'',
            durationMs = 1000, isrc = Some ''US1''\<rparr>"
  by (simp add: KKBox_searchTrack_def KKBox_read_def fetch_eq demo_server_def known_queries_def
      trim_def is_space_def song1_def net0_def kkbox_track_def kk_by_text_def kk_by_isrc_def
      or_else_def)

subsection \<open>Errors and misses of searchTrack\<close>


























end
